theory Spec2Isabelle
  imports Complex_Main "HOL-Library.AList" "HOL-Library.Multiset"
begin

section \<open>Data model of the group order service\<close>

text \<open>
  The embedding follows \<^verbatim>\<open>OrderService.ts\<close> and \<^verbatim>\<open>OrderModificationService.ts\<close>.
  TypeScript \<^verbatim>\<open>number\<close> values (prices, quantities, amounts) are IEEE 754 doubles,
  modelled by \<open>jsnum\<close> below; a \<^verbatim>\<open>Date\<close> is its millisecond timestamp, an integer. Every operation reads the clock once (\<open>now\<close>) and
  receives the identifiers that \<^verbatim>\<open>generateId\<close> draws at random as arguments. A JavaScript
  \<^verbatim>\<open>Map\<close> is an association list with distinct keys in insertion order: \<open>map_of\<close> is
  \<^verbatim>\<open>get\<close>, \<open>AList.update\<close> is \<^verbatim>\<open>set\<close> (an existing key keeps its place, a new key goes
  last) and \<open>AList.delete\<close> is \<^verbatim>\<open>delete\<close>. Broadcasts to the web socket service and
  console logging leave the order store untouched and are not part of the state.
  The declarations of \<^verbatim>\<open>types/order.ts\<close> are not among the sources; the records below list
  the fields that the service code reads and writes.
\<close>

section \<open>JavaScript numbers\<close>

text \<open>
  A \<^verbatim>\<open>number\<close> is a binary64 value: a finite double, carried as the rational it denotes,
  or one of the infinities, or \<^verbatim>\<open>NaN\<close>. The sign of zero is not tracked (\<^verbatim>\<open>-0 === 0\<close> holds
  and the code never divides by an amount). \<open>round64\<close> rounds a rational to the nearest
  double, ties to even: 53 significant bits, exponents down to the subnormal range, and
  infinity from \<open>2 ^ 1024\<close> on. Addition and multiplication compute the exact result and
  round it once, as IEEE 754 prescribes.
\<close>

datatype jsnum = Fin rat | PosInf | NegInf | NaN

text \<open>The number of binary digits of a natural number.\<close>

fun bitLength :: "nat \<Rightarrow> nat" where
  "bitLength n = (if n = 0 then 0 else Suc (bitLength (n div 2)))"

declare bitLength.simps [simp del]

text \<open>For a positive rational \<open>a\<close>, the integer \<open>e\<close> with \<open>2 ^ e \<le> a < 2 ^ (e + 1)\<close>.\<close>

definition floorLog2 :: "rat \<Rightarrow> int" where
  "floorLog2 a =
     (if 1 \<le> a then int (bitLength (nat \<lfloor>a\<rfloor>)) - 1
      else - int (bitLength (nat (\<lceil>1 / a\<rceil> - 1))))"

definition roundHalfEven :: "rat \<Rightarrow> int" where
  "roundHalfEven y =
     (let f = \<lfloor>y\<rfloor>; d = y - of_int f
      in if d < 1 / 2 then f else if 1 / 2 < d then f + 1 else if even f then f else f + 1)"

definition round64 :: "rat \<Rightarrow> jsnum" where
  "round64 x =
     (if x = 0 then Fin 0
      else
        (let a = \<bar>x\<bar>;
             k = max (floorLog2 a) (- 1022) - 52;
             r = (if 0 \<le> k then of_int (roundHalfEven (a / 2 ^ nat k)) * 2 ^ nat k
                  else of_int (roundHalfEven (a * 2 ^ nat (- k))) / 2 ^ nat (- k))
         in if 2 ^ 1024 \<le> r then (if x < 0 then NegInf else PosInf)
            else Fin (if x < 0 then - r else r)))"

fun jsAdd :: "jsnum \<Rightarrow> jsnum \<Rightarrow> jsnum" where
  "jsAdd NaN b = NaN"
| "jsAdd a NaN = NaN"
| "jsAdd PosInf NegInf = NaN"
| "jsAdd NegInf PosInf = NaN"
| "jsAdd PosInf b = PosInf"
| "jsAdd NegInf b = NegInf"
| "jsAdd a PosInf = PosInf"
| "jsAdd a NegInf = NegInf"
| "jsAdd (Fin a) (Fin b) = round64 (a + b)"

fun jsMul :: "jsnum \<Rightarrow> jsnum \<Rightarrow> jsnum" where
  "jsMul NaN b = NaN"
| "jsMul a NaN = NaN"
| "jsMul (Fin a) (Fin b) = round64 (a * b)"
| "jsMul (Fin a) PosInf = (if a = 0 then NaN else if 0 < a then PosInf else NegInf)"
| "jsMul (Fin a) NegInf = (if a = 0 then NaN else if 0 < a then NegInf else PosInf)"
| "jsMul PosInf (Fin b) = (if b = 0 then NaN else if 0 < b then PosInf else NegInf)"
| "jsMul NegInf (Fin b) = (if b = 0 then NaN else if 0 < b then NegInf else PosInf)"
| "jsMul PosInf PosInf = PosInf"
| "jsMul PosInf NegInf = NegInf"
| "jsMul NegInf PosInf = NegInf"
| "jsMul NegInf NegInf = PosInf"

text \<open>Division of an amount by a positive count (\<^verbatim>\<open>totalAmount / participants.length\<close>).\<close>

fun jsDivCount :: "jsnum \<Rightarrow> nat \<Rightarrow> jsnum" where
  "jsDivCount (Fin a) n = round64 (a / of_nat n)"
| "jsDivCount x n = x"

text \<open>The sum of a list of numbers, added from the left starting at \<open>0\<close>.\<close>

definition jsSum :: "jsnum list \<Rightarrow> jsnum" where
  "jsSum xs = foldl jsAdd (Fin 0) xs"

section \<open>Orders, participants and items\<close>

datatype OrderStatus = Active | Closed | Expired

record Customization =
  cz_name :: string
  cz_priceModifier :: jsnum

record OrderItem =
  oi_id :: string
  oi_menuItemId :: string
  oi_menuItemName :: string
  oi_basePrice :: jsnum
  oi_quantity :: jsnum
  oi_customizations :: "Customization list"
  oi_totalPrice :: jsnum
  oi_notes :: "string option"

record OrderParticipant =
  op_id :: string
  op_userId :: "string option"
  op_guestSessionId :: "string option"
  op_nickname :: string
  op_items :: "OrderItem list"
  op_totalAmount :: jsnum
  op_joinedAt :: int
  op_lastModifiedAt :: int

record OrderItemBreakdown =
  ib_menuItemId :: string
  ib_menuItemName :: string
  ib_totalQuantity :: jsnum
  ib_totalAmount :: jsnum
  ib_participants :: "string list"

record OrderSummary =
  os_totalParticipants :: nat
  os_totalItems :: jsnum
  os_totalAmount :: jsnum
  os_itemBreakdown :: "OrderItemBreakdown list"
  os_lastUpdated :: int

record OrderSettings =
  st_allowModification :: bool
  st_maxParticipants :: "int option"
  st_autoCloseOnDeadline :: bool

record GroupOrder =
  go_id :: string
  go_orderCode :: string
  go_menuId :: string
  go_createdBy :: string
  go_title :: string
  go_description :: "string option"
  go_status :: OrderStatus
  go_deadline :: "int option"
  go_createdAt :: int
  go_updatedAt :: int
  go_closedAt :: "int option"
  go_participants :: "OrderParticipant list"
  go_summary :: OrderSummary
  go_settings :: OrderSettings

text \<open>The part of the menu catalogue that the order service reads.\<close>

record MenuItem =
  mi_id :: string
  mi_name :: string
  mi_price :: jsnum
  mi_isAvailable :: bool

record Menu =
  mn_id :: string
  mn_items :: "MenuItem list"

record MenuService =
  getMenuById :: "string \<Rightarrow> Menu option"
  canUserViewMenu :: "string \<Rightarrow> string \<Rightarrow> bool"

record AddOrderItemRequest =
  air_menuItemId :: string
  air_quantity :: jsnum
  air_customizations :: "Customization list option"
  air_notes :: "string option"

record UpdateOrderItemRequest =
  uir_quantity :: "jsnum option"
  uir_customizations :: "Customization list option"
  uir_notes :: "string option"

record JoinOrderRequest =
  jr_orderCode :: string
  jr_nickname :: string
  jr_userId :: "string option"
  jr_guestSessionId :: "string option"

subsection \<open>Modification records\<close>

datatype ModificationType =
  item_added | item_updated | item_removed | participant_joined | participant_left

datatype ModValue = ParticipantValue OrderParticipant | ItemValue OrderItem

record ItemDetails =
  idt_itemId :: string
  idt_itemName :: string
  idt_quantity :: jsnum
  idt_price :: jsnum

record OrderModification =
  om_id :: string
  om_orderId :: string
  om_participantId :: string
  om_participantNickname :: string
  om_type :: ModificationType
  om_timestamp :: int
  om_description :: string
  om_oldValue :: "ModValue option"
  om_newValue :: "ModValue option"
  om_itemDetails :: "ItemDetails option"

record ModificationPermissionCheck =
  pc_canModify :: bool
  pc_reason :: "string option"
  pc_timeRemaining :: "int option"

subsection \<open>The service state\<close>

text \<open>
  \<open>orders\<close> and \<open>orderCodeIndex\<close> are the two maps of \<^verbatim>\<open>OrderServiceImpl\<close>;
  \<open>modifications\<close> is the map of the \<^verbatim>\<open>OrderModificationServiceImpl\<close> it owns, which
  reads the same \<open>orders\<close> map through \<^verbatim>\<open>setOrdersReference\<close>.
\<close>

record OrderServiceImpl =
  orders :: "(string \<times> GroupOrder) list"
  orderCodeIndex :: "(string \<times> string) list"
  modifications :: "(string \<times> OrderModification list) list"

definition emptyService :: OrderServiceImpl where
  "emptyService = \<lparr>orders = [], orderCodeIndex = [], modifications = []\<rparr>"

subsection \<open>JavaScript helpers\<close>

text \<open>\<^verbatim>\<open>Array.prototype.findIndex\<close>: the first index whose element satisfies the test.\<close>

fun findIndex :: "('a \<Rightarrow> bool) \<Rightarrow> 'a list \<Rightarrow> nat option" where
  "findIndex P [] = None"
| "findIndex P (x # xs) =
     (if P x then Some 0 else map_option Suc (findIndex P xs))"

text \<open>\<^verbatim>\<open>xs.splice(i, 1)\<close> on a copy: the list without position \<open>i\<close>.\<close>

definition splice1 :: "nat \<Rightarrow> 'a list \<Rightarrow> 'a list" where
  "splice1 i xs = take i xs @ drop (Suc i) xs"

text \<open>Truthiness of an optional string: \<^verbatim>\<open>undefined\<close> and the empty string are falsy.\<close>

fun truthyStr :: "string option \<Rightarrow> bool" where
  "truthyStr None = False"
| "truthyStr (Some s) = (s \<noteq> [])"

text \<open>Truthiness of an optional number: \<^verbatim>\<open>undefined\<close> and \<open>0\<close> are falsy.\<close>

fun truthyNum :: "int option \<Rightarrow> bool" where
  "truthyNum None = False"
| "truthyNum (Some n) = (n \<noteq> 0)"

text \<open>\<^verbatim>\<open>e || dflt\<close> on an optional string.\<close>

fun orElse :: "string option \<Rightarrow> string \<Rightarrow> string" where
  "orElse None dflt = dflt"
| "orElse (Some e) dflt = (if e = [] then dflt else e)"

section \<open>Aggregation: \<^verbatim>\<open>calculateOrderSummary\<close>\<close>

text \<open>
  The body of the inner loop over a participant's items: the running item count and the
  breakdown map keyed by menu item id. An existing entry is changed in place and the
  participant's nickname is pushed onto its list.
\<close>

definition summaryItemStep ::
  "OrderParticipant \<Rightarrow> jsnum \<times> (string \<times> OrderItemBreakdown) list \<Rightarrow> OrderItem
     \<Rightarrow> jsnum \<times> (string \<times> OrderItemBreakdown) list" where
  "summaryItemStep participant acc item =
     (let totalItems = jsAdd (fst acc) (oi_quantity item);
          key = oi_menuItemId item
      in case map_of (snd acc) key of
           Some existing \<Rightarrow>
             (totalItems,
              AList.update key
                (existing\<lparr>ib_totalQuantity := jsAdd (ib_totalQuantity existing) (oi_quantity item),
                          ib_totalAmount := jsAdd (ib_totalAmount existing) (oi_totalPrice item),
                          ib_participants := ib_participants existing @ [op_nickname participant]\<rparr>)
                (snd acc))
         | None \<Rightarrow>
             (totalItems,
              AList.update key
                \<lparr>ib_menuItemId = oi_menuItemId item,
                 ib_menuItemName = oi_menuItemName item,
                 ib_totalQuantity = oi_quantity item,
                 ib_totalAmount = oi_totalPrice item,
                 ib_participants = [op_nickname participant]\<rparr>
                (snd acc)))"

text \<open>The body of the outer loop over the participants.\<close>

definition summaryParticipantStep ::
  "jsnum \<times> jsnum \<times> (string \<times> OrderItemBreakdown) list \<Rightarrow> OrderParticipant
     \<Rightarrow> jsnum \<times> jsnum \<times> (string \<times> OrderItemBreakdown) list" where
  "summaryParticipantStep acc participant =
     (let totalAmount = jsAdd (fst (snd acc)) (op_totalAmount participant);
          inner = foldl (summaryItemStep participant) (fst acc, snd (snd acc)) (op_items participant)
      in (fst inner, totalAmount, snd inner))"

definition computeSummary :: "int \<Rightarrow> GroupOrder \<Rightarrow> OrderSummary" where
  "computeSummary now order =
     (let r = foldl summaryParticipantStep (Fin 0, Fin 0, []) (go_participants order)
      in \<lparr>os_totalParticipants = length (go_participants order),
          os_totalItems = fst r,
          os_totalAmount = fst (snd r),
          os_itemBreakdown = map snd (snd (snd r)),
          os_lastUpdated = now\<rparr>)"

definition calculateOrderSummary ::
  "int \<Rightarrow> string \<Rightarrow> OrderServiceImpl \<Rightarrow> OrderSummary option \<times> OrderServiceImpl" where
  "calculateOrderSummary now orderId s =
     (case map_of (orders s) orderId of
        None \<Rightarrow> (None, s)
      | Some order \<Rightarrow>
          (let summary = computeSummary now order;
               updatedOrder = order\<lparr>go_summary := summary, go_updatedAt := now\<rparr>
           in (Some summary, s\<lparr>orders := AList.update orderId updatedOrder (orders s)\<rparr>)))"

section \<open>Modification history: \<^verbatim>\<open>recordModification\<close>\<close>

text \<open>
  The argument carries every field but \<open>om_id\<close> and \<open>om_timestamp\<close>, which the
  function overwrites with a fresh id and the clock.
\<close>

definition recordModification ::
  "int \<Rightarrow> string \<Rightarrow> OrderModification \<Rightarrow> OrderServiceImpl
     \<Rightarrow> OrderModification \<times> OrderServiceImpl" where
  "recordModification now newId modification s =
     (let modificationRecord = modification\<lparr>om_id := newId, om_timestamp := now\<rparr>;
          orderModifications =
            (case map_of (modifications s) (om_orderId modification) of
               None \<Rightarrow> [] | Some ms \<Rightarrow> ms)
      in (modificationRecord,
          s\<lparr>modifications :=
              AList.update (om_orderId modification)
                (orderModifications @ [modificationRecord]) (modifications s)\<rparr>))"

section \<open>Item ledger\<close>

text \<open>
  \<^verbatim>\<open>addOrderItem\<close> returns the created item or \<^verbatim>\<open>null\<close>. The price is the menu price
  times the quantity, to which each customization's modifier times the quantity is added
  in turn, every product and sum rounded as a double; the participant's total is the old
  total plus that price.
\<close>

definition itemPrice :: "jsnum \<Rightarrow> jsnum \<Rightarrow> Customization list \<Rightarrow> jsnum" where
  "itemPrice price quantity cs =
     foldl (\<lambda>totalPrice customization.
              jsAdd totalPrice (jsMul (cz_priceModifier customization) quantity))
       (jsMul price quantity) cs"

definition addOrderItem ::
  "MenuService \<Rightarrow> int \<Rightarrow> string \<Rightarrow> string \<Rightarrow> string \<Rightarrow> AddOrderItemRequest
     \<Rightarrow> OrderServiceImpl \<Rightarrow> OrderItem option \<times> OrderServiceImpl" where
  "addOrderItem menuService now newId orderId participantId request s =
     (case map_of (orders s) orderId of
        None \<Rightarrow> (None, s)
      | Some order \<Rightarrow>
          if go_status order \<noteq> Active then (None, s)
          else if \<not> st_allowModification (go_settings order) then (None, s)
          else
            (case findIndex (\<lambda>p. op_id p = participantId) (go_participants order) of
               None \<Rightarrow> (None, s)
             | Some participantIndex \<Rightarrow>
                 (case getMenuById menuService (go_menuId order) of
                    None \<Rightarrow> (None, s)
                  | Some menu \<Rightarrow>
                      (case find (\<lambda>item. mi_id item = air_menuItemId request) (mn_items menu) of
                         None \<Rightarrow> (None, s)
                       | Some menuItem \<Rightarrow>
                           if \<not> mi_isAvailable menuItem then (None, s)
                           else
                             (let cs = (case air_customizations request of
                                          None \<Rightarrow> [] | Some c \<Rightarrow> c);
                                  totalPrice = itemPrice (mi_price menuItem) (air_quantity request) cs;
                                  orderItem =
                                    \<lparr>oi_id = newId,
                                     oi_menuItemId = air_menuItemId request,
                                     oi_menuItemName = mi_name menuItem,
                                     oi_basePrice = mi_price menuItem,
                                     oi_quantity = air_quantity request,
                                     oi_customizations = cs,
                                     oi_totalPrice = totalPrice,
                                     oi_notes = air_notes request\<rparr>;
                                  participant = go_participants order ! participantIndex;
                                  updatedParticipant =
                                    participant\<lparr>op_items := op_items participant @ [orderItem],
                                                 op_totalAmount := jsAdd (op_totalAmount participant) totalPrice,
                                                 op_lastModifiedAt := now\<rparr>;
                                  updatedOrder =
                                    order\<lparr>go_participants :=
                                             (go_participants order)[participantIndex := updatedParticipant],
                                           go_updatedAt := now\<rparr>;
                                  s1 = s\<lparr>orders := AList.update orderId updatedOrder (orders s)\<rparr>
                              in (Some orderItem, snd (calculateOrderSummary now orderId s1)))))))"

text \<open>
  \<^verbatim>\<open>updateOrderItem\<close> recomputes the item's price from its stored base price and the
  participant's total by a \<^verbatim>\<open>reduce\<close> over the updated items.
\<close>

definition sumTotalPrice :: "OrderItem list \<Rightarrow> jsnum" where
  "sumTotalPrice its = foldl (\<lambda>sum item. jsAdd sum (oi_totalPrice item)) (Fin 0) its"

definition updateOrderItem ::
  "int \<Rightarrow> string \<Rightarrow> string \<Rightarrow> string \<Rightarrow> UpdateOrderItemRequest
     \<Rightarrow> OrderServiceImpl \<Rightarrow> OrderItem option \<times> OrderServiceImpl" where
  "updateOrderItem now orderId participantId itemId request s =
     (case map_of (orders s) orderId of
        None \<Rightarrow> (None, s)
      | Some order \<Rightarrow>
          if go_status order \<noteq> Active then (None, s)
          else if \<not> st_allowModification (go_settings order) then (None, s)
          else
            (case findIndex (\<lambda>p. op_id p = participantId) (go_participants order) of
               None \<Rightarrow> (None, s)
             | Some participantIndex \<Rightarrow>
                 (let participant = go_participants order ! participantIndex
                  in case findIndex (\<lambda>item. oi_id item = itemId) (op_items participant) of
                       None \<Rightarrow> (None, s)
                     | Some itemIndex \<Rightarrow>
                         (let existingItem = op_items participant ! itemIndex;
                              quantity = (case uir_quantity request of
                                            None \<Rightarrow> oi_quantity existingItem | Some q \<Rightarrow> q);
                              customizations = (case uir_customizations request of
                                                  None \<Rightarrow> oi_customizations existingItem
                                                | Some c \<Rightarrow> c);
                              totalPrice = itemPrice (oi_basePrice existingItem) quantity customizations;
                              updatedItem =
                                existingItem\<lparr>oi_quantity := quantity,
                                              oi_customizations := customizations,
                                              oi_totalPrice := totalPrice,
                                              oi_notes := (case uir_notes request of
                                                             None \<Rightarrow> oi_notes existingItem
                                                           | Some n \<Rightarrow> Some n)\<rparr>;
                              updatedItems = (op_items participant)[itemIndex := updatedItem];
                              updatedParticipant =
                                participant\<lparr>op_items := updatedItems,
                                             op_totalAmount := sumTotalPrice updatedItems,
                                             op_lastModifiedAt := now\<rparr>;
                              updatedOrder =
                                order\<lparr>go_participants :=
                                         (go_participants order)[participantIndex := updatedParticipant],
                                       go_updatedAt := now\<rparr>;
                              s1 = s\<lparr>orders := AList.update orderId updatedOrder (orders s)\<rparr>
                          in (Some updatedItem, snd (calculateOrderSummary now orderId s1))))))"

definition removeOrderItem ::
  "int \<Rightarrow> string \<Rightarrow> string \<Rightarrow> string \<Rightarrow> OrderServiceImpl \<Rightarrow> bool \<times> OrderServiceImpl" where
  "removeOrderItem now orderId participantId itemId s =
     (case map_of (orders s) orderId of
        None \<Rightarrow> (False, s)
      | Some order \<Rightarrow>
          if go_status order \<noteq> Active then (False, s)
          else if \<not> st_allowModification (go_settings order) then (False, s)
          else
            (case findIndex (\<lambda>p. op_id p = participantId) (go_participants order) of
               None \<Rightarrow> (False, s)
             | Some participantIndex \<Rightarrow>
                 (let participant = go_participants order ! participantIndex
                  in case findIndex (\<lambda>item. oi_id item = itemId) (op_items participant) of
                       None \<Rightarrow> (False, s)
                     | Some itemIndex \<Rightarrow>
                         (let updatedItems = splice1 itemIndex (op_items participant);
                              updatedParticipant =
                                participant\<lparr>op_items := updatedItems,
                                             op_totalAmount := sumTotalPrice updatedItems,
                                             op_lastModifiedAt := now\<rparr>;
                              updatedOrder =
                                order\<lparr>go_participants :=
                                         (go_participants order)[participantIndex := updatedParticipant],
                                       go_updatedAt := now\<rparr>;
                              s1 = s\<lparr>orders := AList.update orderId updatedOrder (orders s)\<rparr>
                          in (True, snd (calculateOrderSummary now orderId s1))))))"

section \<open>Participant registry\<close>

record OrderValidationResult =
  vr_isValid :: bool
  vr_canJoin :: bool
  vr_error :: "string option"
  vr_order :: "GroupOrder option"

definition statusName :: "OrderStatus \<Rightarrow> string" where
  "statusName st = (case st of Active \<Rightarrow> ''active'' | Closed \<Rightarrow> ''closed'' | Expired \<Rightarrow> ''expired'')"

definition validateOrderCode :: "int \<Rightarrow> string \<Rightarrow> OrderServiceImpl \<Rightarrow> OrderValidationResult" where
  "validateOrderCode now orderCode s =
     (if \<not> truthyStr (map_of (orderCodeIndex s) orderCode) then
        \<lparr>vr_isValid = False, vr_canJoin = False,
         vr_error = Some ''Invalid order code'', vr_order = None\<rparr>
      else
        (case map_of (orders s) (the (map_of (orderCodeIndex s) orderCode)) of
           None \<Rightarrow>
             \<lparr>vr_isValid = False, vr_canJoin = False,
              vr_error = Some ''Order not found'', vr_order = None\<rparr>
         | Some order \<Rightarrow>
             if go_status order \<noteq> Active then
               \<lparr>vr_isValid = True, vr_canJoin = False,
                vr_error = Some (''Order is '' @ statusName (go_status order)),
                vr_order = Some order\<rparr>
             else if (case go_deadline order of None \<Rightarrow> False | Some d \<Rightarrow> d \<le> now) then
               \<lparr>vr_isValid = True, vr_canJoin = False,
                vr_error = Some ''Order deadline has passed'', vr_order = Some order\<rparr>
             else
               \<lparr>vr_isValid = True, vr_canJoin = True, vr_error = None, vr_order = Some order\<rparr>))"

text \<open>
  The optional participant service is a collaborator: \<^verbatim>\<open>joinOrder\<close> asks it to validate the
  identity of the request and, with the identity's id, whether that identity may join.
\<close>

record ParticipantValidationResult =
  pv_isValid :: bool
  pv_canJoin :: bool
  pv_identity :: "string option"
  pv_error :: "string option"

record ParticipantService =
  validateParticipantIdentity :: "JoinOrderRequest \<Rightarrow> ParticipantValidationResult"
  canParticipantJoinOrder :: "string \<Rightarrow> GroupOrder \<Rightarrow> bool"

text \<open>
  What \<^verbatim>\<open>ParticipantServiceImpl.canParticipantJoinOrder\<close> computes, given the identity
  (user id, guest session id) that it looks up for the participant id.
\<close>

definition canParticipantJoinOrderImpl ::
  "int \<Rightarrow> (string option \<times> string option) option \<Rightarrow> string \<Rightarrow> GroupOrder \<Rightarrow> bool" where
  "canParticipantJoinOrderImpl now identity participantId order =
     (case identity of
        None \<Rightarrow> False
      | Some (userId, guestSessionId) \<Rightarrow>
          if go_status order \<noteq> Active then False
          else if (case go_deadline order of None \<Rightarrow> False | Some d \<Rightarrow> d \<le> now) then False
          else if truthyNum (st_maxParticipants (go_settings order)) \<and>
                  the (st_maxParticipants (go_settings order)) \<le> int (length (go_participants order))
          then False
          else \<not> list_ex (\<lambda>p. op_id p = participantId \<or>
                               (truthyStr userId \<and> op_userId p = userId) \<or>
                               (truthyStr guestSessionId \<and> op_guestSessionId p = guestSessionId))
                     (go_participants order))"

definition rejectJoin :: "string \<Rightarrow> OrderValidationResult" where
  "rejectJoin err = \<lparr>vr_isValid = False, vr_canJoin = False, vr_error = Some err, vr_order = None\<rparr>"

text \<open>
  The identity gate of \<^verbatim>\<open>joinOrder\<close>: \<open>Some err\<close> when the participant service is present
  and refuses, \<open>None\<close> when there is no participant service or it lets the request pass.
\<close>

definition identityGate ::
  "ParticipantService option \<Rightarrow> JoinOrderRequest \<Rightarrow> GroupOrder \<Rightarrow> string option" where
  "identityGate participantService request order =
     (case participantService of
        None \<Rightarrow> None
      | Some ps \<Rightarrow>
          (let identityValidation = validateParticipantIdentity ps request
           in if \<not> pv_isValid identityValidation \<or> \<not> pv_canJoin identityValidation
              then Some (orElse (pv_error identityValidation) ''Cannot join order'')
              else (case pv_identity identityValidation of
                      None \<Rightarrow> None
                    | Some identityId \<Rightarrow>
                        if \<not> canParticipantJoinOrder ps identityId order
                        then Some ''Cannot join this order'' else None)))"

definition joinOrder ::
  "ParticipantService option \<Rightarrow> int \<Rightarrow> string \<Rightarrow> string \<Rightarrow> JoinOrderRequest
     \<Rightarrow> OrderServiceImpl \<Rightarrow> OrderValidationResult \<times> OrderServiceImpl" where
  "joinOrder participantService now participantId modId request s =
     (let validation = validateOrderCode now (jr_orderCode request) s
      in if \<not> vr_isValid validation then (validation, s)
         else
           (case vr_order validation of
              None \<Rightarrow> (validation, s)
            | Some order \<Rightarrow>
                (case identityGate participantService request order of
                   Some err \<Rightarrow> (rejectJoin err, s)
                 | None \<Rightarrow>
                     if list_ex (\<lambda>p. (truthyStr (jr_userId request) \<and> op_userId p = jr_userId request) \<or>
                                      (truthyStr (jr_guestSessionId request) \<and>
                                         op_guestSessionId p = jr_guestSessionId request) \<or>
                                      op_nickname p = jr_nickname request)
                          (go_participants order)
                     then (rejectJoin ''Already joined this order or nickname already taken'', s)
                     else if truthyNum (st_maxParticipants (go_settings order)) \<and>
                             the (st_maxParticipants (go_settings order))
                               \<le> int (length (go_participants order))
                     then (rejectJoin ''Order has reached maximum participants'', s)
                     else
                       (let participant =
                              \<lparr>op_id = participantId,
                               op_userId = jr_userId request,
                               op_guestSessionId = jr_guestSessionId request,
                               op_nickname = jr_nickname request,
                               op_items = [],
                               op_totalAmount = Fin 0,
                               op_joinedAt = now,
                               op_lastModifiedAt = now\<rparr>;
                            updatedOrder =
                              order\<lparr>go_participants := go_participants order @ [participant],
                                     go_updatedAt := now\<rparr>;
                            s1 = s\<lparr>orders := AList.update (go_id order) updatedOrder (orders s)\<rparr>;
                            s2 = snd (calculateOrderSummary now (go_id order) s1);
                            s3 = snd (recordModification now modId
                                        \<lparr>om_id = [], om_orderId = go_id order,
                                         om_participantId = participantId,
                                         om_participantNickname = jr_nickname request,
                                         om_type = participant_joined,
                                         om_timestamp = 0,
                                         om_description = jr_nickname request @ '' joined the order'',
                                         om_oldValue = None,
                                         om_newValue = Some (ParticipantValue participant),
                                         om_itemDetails = None\<rparr> s2)
                        in (\<lparr>vr_isValid = True, vr_canJoin = True, vr_error = None,
                             vr_order = Some updatedOrder\<rparr>, s3)))))"

definition leaveOrder ::
  "int \<Rightarrow> string \<Rightarrow> string \<Rightarrow> string \<Rightarrow> OrderServiceImpl \<Rightarrow> bool \<times> OrderServiceImpl" where
  "leaveOrder now modId orderId participantId s =
     (case map_of (orders s) orderId of
        None \<Rightarrow> (False, s)
      | Some order \<Rightarrow>
          (case findIndex (\<lambda>p. op_id p = participantId) (go_participants order) of
             None \<Rightarrow> (False, s)
           | Some participantIndex \<Rightarrow>
               (let removedParticipant = go_participants order ! participantIndex;
                    updatedOrder =
                      order\<lparr>go_participants := splice1 participantIndex (go_participants order),
                             go_updatedAt := now\<rparr>;
                    s1 = s\<lparr>orders := AList.update orderId updatedOrder (orders s)\<rparr>;
                    s2 = snd (calculateOrderSummary now orderId s1);
                    s3 = snd (recordModification now modId
                                \<lparr>om_id = [], om_orderId = orderId,
                                 om_participantId = participantId,
                                 om_participantNickname = op_nickname removedParticipant,
                                 om_type = participant_left,
                                 om_timestamp = 0,
                                 om_description = op_nickname removedParticipant @ '' left the order'',
                                 om_oldValue = Some (ParticipantValue removedParticipant),
                                 om_newValue = None,
                                 om_itemDetails = None\<rparr> s2)
                in (True, s3))))"

section \<open>Lifecycle controller\<close>

text \<open>
  A partial settings object of a request: \<open>None\<close> is an absent key, which the object
  spread leaves as it was.
\<close>

record PartialSettings =
  pst_allowModification :: "bool option"
  pst_maxParticipants :: "int option option"
  pst_autoCloseOnDeadline :: "bool option"

definition spreadSettings :: "OrderSettings \<Rightarrow> PartialSettings option \<Rightarrow> OrderSettings" where
  "spreadSettings base req =
     (case req of
        None \<Rightarrow> base
      | Some r \<Rightarrow>
          \<lparr>st_allowModification =
             (case pst_allowModification r of None \<Rightarrow> st_allowModification base | Some b \<Rightarrow> b),
           st_maxParticipants =
             (case pst_maxParticipants r of None \<Rightarrow> st_maxParticipants base | Some m \<Rightarrow> m),
           st_autoCloseOnDeadline =
             (case pst_autoCloseOnDeadline r of None \<Rightarrow> st_autoCloseOnDeadline base | Some b \<Rightarrow> b)\<rparr>)"

record GroupOrderCreateRequest =
  cr_menuId :: string
  cr_title :: string
  cr_description :: "string option"
  cr_deadline :: "int option"
  cr_settings :: "PartialSettings option"

text \<open>
  The declaration of \<^verbatim>\<open>GroupOrderUpdateRequest\<close> is not among the sources. The router hands
  the request body to \<^verbatim>\<open>updateOrder\<close> as it arrives and \<^verbatim>\<open>updateOrder\<close> spreads every key
  of the request over the stored order, so a request may carry any field of an order;
  \<open>None\<close> is an absent key. The keys \<^verbatim>\<open>id\<close>, \<^verbatim>\<open>orderCode\<close>, \<^verbatim>\<open>createdBy\<close>, \<^verbatim>\<open>createdAt\<close> and
  \<^verbatim>\<open>updatedAt\<close> are written back after the spread, whatever the request holds for them,
  and are left out of the record.
\<close>

record GroupOrderUpdateRequest =
  ur_title :: "string option"
  ur_description :: "string option"
  ur_deadline :: "int option"
  ur_settings :: "PartialSettings option"
  ur_menuId :: "string option"
  ur_status :: "OrderStatus option"
  ur_closedAt :: "int option"
  ur_participants :: "OrderParticipant list option"
  ur_summary :: "OrderSummary option"

datatype error = Error string

text \<open>
  \<^verbatim>\<open>generateOrderCode\<close> draws random six-digit codes until one is not in the code index.
  The draws are the list argument; \<open>None\<close> means that every draw given collided and the
  loop has not returned.
\<close>

fun generateOrderCode :: "(string \<times> string) list \<Rightarrow> string list \<Rightarrow> string option" where
  "generateOrderCode idx [] = None"
| "generateOrderCode idx (code # draws) =
     (if map_of idx code \<noteq> None then generateOrderCode idx draws else Some code)"

text \<open>
  \<^verbatim>\<open>createGroupOrder\<close> throws when the menu is missing or not visible to the user. The
  constant \<^verbatim>\<open>DEFAULT_ORDER_SETTINGS\<close> is not among the sources and is a parameter.
\<close>

definition createGroupOrder ::
  "MenuService \<Rightarrow> OrderSettings \<Rightarrow> int \<Rightarrow> string \<Rightarrow> string list \<Rightarrow> string
     \<Rightarrow> GroupOrderCreateRequest \<Rightarrow> OrderServiceImpl
     \<Rightarrow> ((error + GroupOrder) \<times> OrderServiceImpl) option" where
  "createGroupOrder menuService defaultSettings now orderId draws userId request s =
     (case getMenuById menuService (cr_menuId request) of
        None \<Rightarrow> Some (Inl (Error ''Menu not found''), s)
      | Some menu \<Rightarrow>
          if \<not> canUserViewMenu menuService (cr_menuId request) userId then
            Some (Inl (Error ''Permission denied: Cannot create order for private menu''), s)
          else
            (case generateOrderCode (orderCodeIndex s) draws of
               None \<Rightarrow> None
             | Some orderCode \<Rightarrow>
                 (let order =
                        \<lparr>go_id = orderId,
                         go_orderCode = orderCode,
                         go_menuId = cr_menuId request,
                         go_createdBy = userId,
                         go_title = cr_title request,
                         go_description = cr_description request,
                         go_status = Active,
                         go_deadline = cr_deadline request,
                         go_createdAt = now,
                         go_updatedAt = now,
                         go_closedAt = None,
                         go_participants = [],
                         go_summary =
                           \<lparr>os_totalParticipants = 0, os_totalItems = Fin 0, os_totalAmount = Fin 0,
                            os_itemBreakdown = [], os_lastUpdated = now\<rparr>,
                         go_settings = spreadSettings defaultSettings (cr_settings request)\<rparr>
                  in Some (Inr order,
                           s\<lparr>orders := AList.update orderId order (orders s),
                             orderCodeIndex := AList.update orderCode orderId (orderCodeIndex s)\<rparr>))))"

definition updateOrder ::
  "int \<Rightarrow> string \<Rightarrow> string \<Rightarrow> GroupOrderUpdateRequest \<Rightarrow> OrderServiceImpl
     \<Rightarrow> GroupOrder option \<times> OrderServiceImpl" where
  "updateOrder now orderId userId request s =
     (case map_of (orders s) orderId of
        None \<Rightarrow> (None, s)
      | Some order \<Rightarrow>
          if go_createdBy order \<noteq> userId then (None, s)
          else if go_status order \<noteq> Active then (None, s)
          else
            (let updatedOrder =
                   order\<lparr>go_title := (case ur_title request of None \<Rightarrow> go_title order | Some t \<Rightarrow> t),
                          go_description :=
                            (case ur_description request of
                               None \<Rightarrow> go_description order | Some d \<Rightarrow> Some d),
                          go_deadline :=
                            (case ur_deadline request of
                               None \<Rightarrow> go_deadline order | Some d \<Rightarrow> Some d),
                          go_menuId :=
                            (case ur_menuId request of None \<Rightarrow> go_menuId order | Some m \<Rightarrow> m),
                          go_status :=
                            (case ur_status request of None \<Rightarrow> go_status order | Some st \<Rightarrow> st),
                          go_closedAt :=
                            (case ur_closedAt request of
                               None \<Rightarrow> go_closedAt order | Some c \<Rightarrow> Some c),
                          go_participants :=
                            (case ur_participants request of
                               None \<Rightarrow> go_participants order | Some ps \<Rightarrow> ps),
                          go_summary :=
                            (case ur_summary request of
                               None \<Rightarrow> go_summary order | Some sm \<Rightarrow> sm),
                          go_id := orderId,
                          go_orderCode := go_orderCode order,
                          go_createdBy := go_createdBy order,
                          go_createdAt := go_createdAt order,
                          go_updatedAt := now,
                          go_settings := spreadSettings (go_settings order) (ur_settings request)\<rparr>
             in (Some updatedOrder, s\<lparr>orders := AList.update orderId updatedOrder (orders s)\<rparr>)))"

definition closeOrder ::
  "int \<Rightarrow> string \<Rightarrow> string \<Rightarrow> OrderServiceImpl \<Rightarrow> bool \<times> OrderServiceImpl" where
  "closeOrder now orderId userId s =
     (case map_of (orders s) orderId of
        None \<Rightarrow> (False, s)
      | Some order \<Rightarrow>
          if go_createdBy order \<noteq> userId then (False, s)
          else if go_status order \<noteq> Active then (False, s)
          else
            (let closedOrder =
                   order\<lparr>go_status := Closed, go_closedAt := Some now, go_updatedAt := now\<rparr>
             in (True, s\<lparr>orders := AList.update orderId closedOrder (orders s)\<rparr>)))"

definition deleteOrder :: "string \<Rightarrow> string \<Rightarrow> OrderServiceImpl \<Rightarrow> bool \<times> OrderServiceImpl" where
  "deleteOrder orderId userId s =
     (case map_of (orders s) orderId of
        None \<Rightarrow> (False, s)
      | Some order \<Rightarrow>
          if go_createdBy order \<noteq> userId then (False, s)
          else
            (True, s\<lparr>orders := AList.delete orderId (orders s),
                     orderCodeIndex := AList.delete (go_orderCode order) (orderCodeIndex s)\<rparr>))"

definition expireOrder :: "int \<Rightarrow> string \<Rightarrow> OrderServiceImpl \<Rightarrow> bool \<times> OrderServiceImpl" where
  "expireOrder now orderId s =
     (case map_of (orders s) orderId of
        None \<Rightarrow> (False, s)
      | Some order \<Rightarrow>
          if go_status order \<noteq> Active then (False, s)
          else
            (let expiredOrder =
                   order\<lparr>go_status := Expired, go_closedAt := Some now, go_updatedAt := now\<rparr>
             in (True, s\<lparr>orders := AList.update orderId expiredOrder (orders s)\<rparr>)))"

text \<open>
  The sweep walks the entries of the order map. Expiring an order replaces the value of an
  existing key, so the keys and their order stay as they were when the loop began, and the
  loop sees the current value of each entry. The accumulator is the list of expired ids and
  the state.
\<close>

definition sweepDue :: "int \<Rightarrow> GroupOrder \<Rightarrow> bool" where
  "sweepDue now order =
     (go_status order = Active \<and>
      (case go_deadline order of None \<Rightarrow> False | Some d \<Rightarrow> d \<le> now) \<and>
      st_autoCloseOnDeadline (go_settings order))"

definition sweepStep ::
  "int \<Rightarrow> string list \<times> OrderServiceImpl \<Rightarrow> string \<Rightarrow> string list \<times> OrderServiceImpl" where
  "sweepStep now acc orderId =
     (case map_of (orders (snd acc)) orderId of
        None \<Rightarrow> acc
      | Some order \<Rightarrow>
          if sweepDue now order
          then (fst acc @ [orderId], snd (expireOrder now orderId (snd acc)))
          else acc)"

definition checkAndExpireOrders ::
  "int \<Rightarrow> OrderServiceImpl \<Rightarrow> string list \<times> OrderServiceImpl" where
  "checkAndExpireOrders now s = foldl (sweepStep now) ([], s) (map fst (orders s))"

section \<open>Permission window and history queries\<close>

definition denied :: "string \<Rightarrow> ModificationPermissionCheck" where
  "denied reason = \<lparr>pc_canModify = False, pc_reason = Some reason, pc_timeRemaining = None\<rparr>"

text \<open>
  \<open>timeRemaining\<close> is \<^verbatim>\<open>Math.max(0, Math.floor((deadline - now) / 60000))\<close>: whole minutes,
  rounded down (\<open>div\<close> on integers rounds down as \<^verbatim>\<open>Math.floor\<close> does).
\<close>

definition checkModificationPermission ::
  "int \<Rightarrow> string \<Rightarrow> string \<Rightarrow> OrderServiceImpl \<Rightarrow> ModificationPermissionCheck" where
  "checkModificationPermission now orderId participantId s =
     (case map_of (orders s) orderId of
        None \<Rightarrow> denied ''Order not found''
      | Some order \<Rightarrow>
          if go_status order \<noteq> Active then denied (''Order is '' @ statusName (go_status order))
          else if \<not> st_allowModification (go_settings order)
          then denied ''Order modifications are disabled''
          else if find (\<lambda>p. op_id p = participantId) (go_participants order) = None
          then denied ''Participant not found in order''
          else
            (case go_deadline order of
               None \<Rightarrow> \<lparr>pc_canModify = True, pc_reason = None, pc_timeRemaining = None\<rparr>
             | Some deadline \<Rightarrow>
                 (let timeRemaining = max 0 ((deadline - now) div (1000 * 60))
                  in if timeRemaining \<le> 0 then denied ''Order deadline has passed''
                     else if timeRemaining \<le> 5 then
                       \<lparr>pc_canModify = True, pc_reason = Some ''Limited time remaining'',
                        pc_timeRemaining = Some timeRemaining\<rparr>
                     else
                       \<lparr>pc_canModify = True, pc_reason = None,
                        pc_timeRemaining = Some timeRemaining\<rparr>)))"

text \<open>
  \<^verbatim>\<open>Array.prototype.sort\<close> with the comparator \<^verbatim>\<open>b.timestamp - a.timestamp\<close> is a stable
  sort by descending timestamp. \<^verbatim>\<open>getOrderModificationHistory\<close> sorts the stored array in
  place, so the state holds the sorted list afterwards.
\<close>

definition sortNewestFirst :: "OrderModification list \<Rightarrow> OrderModification list" where
  "sortNewestFirst ms = sort_key (\<lambda>m. - om_timestamp m) ms"

definition getOrderModificationHistory ::
  "string \<Rightarrow> OrderServiceImpl \<Rightarrow> OrderModification list \<times> OrderServiceImpl" where
  "getOrderModificationHistory orderId s =
     (case map_of (modifications s) orderId of
        None \<Rightarrow> ([], s)
      | Some ms \<Rightarrow>
          (sortNewestFirst ms,
           s\<lparr>modifications := AList.update orderId (sortNewestFirst ms) (modifications s)\<rparr>))"

definition getParticipantModificationHistory ::
  "string \<Rightarrow> OrderServiceImpl \<Rightarrow> OrderModification list" where
  "getParticipantModificationHistory participantId s =
     sortNewestFirst
       (foldl (\<lambda>allModifications ms.
                 allModifications @ filter (\<lambda>m. om_participantId m = participantId) ms)
          [] (map snd (modifications s)))"

section \<open>Live totals: \<^verbatim>\<open>calculateOrderTotals\<close>\<close>

text \<open>
  The totals of the modification service keep, for each menu item, a \<^verbatim>\<open>Set\<close> of participant
  ids; \<open>setAdd\<close> is \<^verbatim>\<open>Set.prototype.add\<close> on a list without duplicates.
\<close>

definition setAdd :: "'a \<Rightarrow> 'a list \<Rightarrow> 'a list" where
  "setAdd x xs = (if x \<in> set xs then xs else xs @ [x])"

record TotalsEntry =
  te_itemId :: string
  te_itemName :: string
  te_totalQuantity :: jsnum
  te_totalAmount :: jsnum
  te_participantCount :: nat
  te_participants :: "string list"

record TotalsBreakdown =
  tb_itemId :: string
  tb_itemName :: string
  tb_totalQuantity :: jsnum
  tb_totalAmount :: jsnum
  tb_participantCount :: nat

record OrderTotals =
  ot_totalParticipants :: nat
  ot_totalItems :: jsnum
  ot_totalAmount :: jsnum
  ot_averagePerParticipant :: jsnum
  ot_itemBreakdown :: "TotalsBreakdown list"

definition totalsItemStep ::
  "OrderParticipant \<Rightarrow> jsnum \<times> (string \<times> TotalsEntry) list \<Rightarrow> OrderItem
     \<Rightarrow> jsnum \<times> (string \<times> TotalsEntry) list" where
  "totalsItemStep participant acc item =
     (let totalItems = jsAdd (fst acc) (oi_quantity item);
          key = oi_menuItemId item
      in case map_of (snd acc) key of
           Some existing \<Rightarrow>
             (let ps = setAdd (op_id participant) (te_participants existing)
              in (totalItems,
                  AList.update key
                    (existing\<lparr>te_totalQuantity := jsAdd (te_totalQuantity existing) (oi_quantity item),
                              te_totalAmount := jsAdd (te_totalAmount existing) (oi_totalPrice item),
                              te_participants := ps,
                              te_participantCount := length ps\<rparr>)
                    (snd acc)))
         | None \<Rightarrow>
             (totalItems,
              AList.update key
                \<lparr>te_itemId = oi_menuItemId item,
                 te_itemName = oi_menuItemName item,
                 te_totalQuantity = oi_quantity item,
                 te_totalAmount = oi_totalPrice item,
                 te_participantCount = 1,
                 te_participants = [op_id participant]\<rparr>
                (snd acc)))"

definition totalsParticipantStep ::
  "jsnum \<times> jsnum \<times> (string \<times> TotalsEntry) list \<Rightarrow> OrderParticipant
     \<Rightarrow> jsnum \<times> jsnum \<times> (string \<times> TotalsEntry) list" where
  "totalsParticipantStep acc participant =
     (let totalAmount = jsAdd (fst (snd acc)) (op_totalAmount participant);
          inner = foldl (totalsItemStep participant) (fst acc, snd (snd acc)) (op_items participant)
      in (fst inner, totalAmount, snd inner))"

definition calculateOrderTotals :: "GroupOrder \<Rightarrow> OrderTotals" where
  "calculateOrderTotals order =
     (let r = foldl totalsParticipantStep (Fin 0, Fin 0, []) (go_participants order);
          totalAmount = fst (snd r)
      in \<lparr>ot_totalParticipants = length (go_participants order),
          ot_totalItems = fst r,
          ot_totalAmount = totalAmount,
          ot_averagePerParticipant =
            (if length (go_participants order) > 0
             then jsDivCount totalAmount (length (go_participants order)) else Fin 0),
          ot_itemBreakdown =
            map (\<lambda>e. \<lparr>tb_itemId = te_itemId e, tb_itemName = te_itemName e,
                       tb_totalQuantity = te_totalQuantity e, tb_totalAmount = te_totalAmount e,
                       tb_participantCount = te_participantCount e\<rparr>)
              (map snd (snd (snd r)))\<rparr>)"

section \<open>History-tracked item operations\<close>

text \<open>
  Each variant asks \<^verbatim>\<open>checkModificationPermission\<close> first and throws an \<^verbatim>\<open>Error\<close> carrying
  the reason when the answer is no; \<open>Inl\<close> is the thrown error, \<open>Inr\<close> the returned value.
  The descriptions embed quantities in template strings; \<open>numberToString\<close> stands for the
  number formatting of the JavaScript engine.
\<close>

definition addOrderItemWithHistory ::
  "(jsnum \<Rightarrow> string) \<Rightarrow> MenuService \<Rightarrow> int \<Rightarrow> string \<Rightarrow> string \<Rightarrow> string \<Rightarrow> string
     \<Rightarrow> AddOrderItemRequest
     \<Rightarrow> OrderServiceImpl \<Rightarrow> (error + OrderItem option) \<times> OrderServiceImpl" where
  "addOrderItemWithHistory numberToString menuService now newId modId orderId participantId request s =
     (let permission = checkModificationPermission now orderId participantId s
      in if \<not> pc_canModify permission
         then (Inl (Error (orElse (pc_reason permission) ''Cannot modify order'')), s)
         else
           (case addOrderItem menuService now newId orderId participantId request s of
              (None, s1) \<Rightarrow> (Inr None, s1)
            | (Some item, s1) \<Rightarrow>
                (case (case map_of (orders s1) orderId of
                         None \<Rightarrow> None
                       | Some order \<Rightarrow> find (\<lambda>p. op_id p = participantId) (go_participants order)) of
                   None \<Rightarrow> (Inr (Some item), s1)
                 | Some participant \<Rightarrow>
                     (Inr (Some item),
                      snd (recordModification now modId
                             \<lparr>om_id = [], om_orderId = orderId,
                              om_participantId = participantId,
                              om_participantNickname = op_nickname participant,
                              om_type = item_added,
                              om_timestamp = 0,
                              om_description =
                                ''Added '' @ numberToString (oi_quantity item) @ ''x '' @ oi_menuItemName item,
                              om_oldValue = None,
                              om_newValue = Some (ItemValue item),
                              om_itemDetails =
                                Some \<lparr>idt_itemId = oi_id item, idt_itemName = oi_menuItemName item,
                                      idt_quantity = oi_quantity item,
                                      idt_price = oi_totalPrice item\<rparr>\<rparr> s1)))))"

text \<open>The old item and the participant are read before the update runs.\<close>

definition updateOrderItemWithHistory ::
  "(jsnum \<Rightarrow> string) \<Rightarrow> int \<Rightarrow> string \<Rightarrow> string \<Rightarrow> string \<Rightarrow> string
     \<Rightarrow> UpdateOrderItemRequest
     \<Rightarrow> OrderServiceImpl \<Rightarrow> (error + OrderItem option) \<times> OrderServiceImpl" where
  "updateOrderItemWithHistory numberToString now modId orderId participantId itemId request s =
     (let permission = checkModificationPermission now orderId participantId s
      in if \<not> pc_canModify permission
         then (Inl (Error (orElse (pc_reason permission) ''Cannot modify order'')), s)
         else
           (let participant =
                  (case map_of (orders s) orderId of
                     None \<Rightarrow> None
                   | Some order \<Rightarrow> find (\<lambda>p. op_id p = participantId) (go_participants order));
                oldItem =
                  (case participant of
                     None \<Rightarrow> None
                   | Some p \<Rightarrow> find (\<lambda>item. oi_id item = itemId) (op_items p))
            in case updateOrderItem now orderId participantId itemId request s of
                 (None, s1) \<Rightarrow> (Inr None, s1)
               | (Some updatedItem, s1) \<Rightarrow>
                   (case (oldItem, participant) of
                      (Some old, Some p) \<Rightarrow>
                        (Inr (Some updatedItem),
                         snd (recordModification now modId
                                \<lparr>om_id = [], om_orderId = orderId,
                                 om_participantId = participantId,
                                 om_participantNickname = op_nickname p,
                                 om_type = item_updated,
                                 om_timestamp = 0,
                                 om_description =
                                   ''Updated '' @ oi_menuItemName updatedItem @ '': '' @
                                   numberToString (oi_quantity old) @
                                   [CHR '' '', CHR 0xE2, CHR 0x86, CHR 0x92, CHR '' ''] @
                                   numberToString (oi_quantity updatedItem),
                                 om_oldValue = Some (ItemValue old),
                                 om_newValue = Some (ItemValue updatedItem),
                                 om_itemDetails =
                                   Some \<lparr>idt_itemId = oi_id updatedItem,
                                         idt_itemName = oi_menuItemName updatedItem,
                                         idt_quantity = oi_quantity updatedItem,
                                         idt_price = oi_totalPrice updatedItem\<rparr>\<rparr> s1))
                    | _ \<Rightarrow> (Inr (Some updatedItem), s1))))"

definition removeOrderItemWithHistory ::
  "(jsnum \<Rightarrow> string) \<Rightarrow> int \<Rightarrow> string \<Rightarrow> string \<Rightarrow> string \<Rightarrow> string
     \<Rightarrow> OrderServiceImpl \<Rightarrow> (error + bool) \<times> OrderServiceImpl" where
  "removeOrderItemWithHistory numberToString now modId orderId participantId itemId s =
     (let permission = checkModificationPermission now orderId participantId s
      in if \<not> pc_canModify permission
         then (Inl (Error (orElse (pc_reason permission) ''Cannot modify order'')), s)
         else
           (let participant =
                  (case map_of (orders s) orderId of
                     None \<Rightarrow> None
                   | Some order \<Rightarrow> find (\<lambda>p. op_id p = participantId) (go_participants order));
                itemToRemove =
                  (case participant of
                     None \<Rightarrow> None
                   | Some p \<Rightarrow> find (\<lambda>item. oi_id item = itemId) (op_items p))
            in case removeOrderItem now orderId participantId itemId s of
                 (False, s1) \<Rightarrow> (Inr False, s1)
               | (True, s1) \<Rightarrow>
                   (case (itemToRemove, participant) of
                      (Some old, Some p) \<Rightarrow>
                        (Inr True,
                         snd (recordModification now modId
                                \<lparr>om_id = [], om_orderId = orderId,
                                 om_participantId = participantId,
                                 om_participantNickname = op_nickname p,
                                 om_type = item_removed,
                                 om_timestamp = 0,
                                 om_description =
                                   ''Removed '' @ numberToString (oi_quantity old) @ ''x '' @
                                   oi_menuItemName old,
                                 om_oldValue = Some (ItemValue old),
                                 om_newValue = None,
                                 om_itemDetails =
                                   Some \<lparr>idt_itemId = oi_id old, idt_itemName = oi_menuItemName old,
                                         idt_quantity = oi_quantity old,
                                         idt_price = oi_totalPrice old\<rparr>\<rparr> s1))
                    | _ \<Rightarrow> (Inr True, s1))))"

section \<open>Sequences of calls\<close>

text \<open>
  A call of a public method together with what the outside world supplies to it: the
  collaborators as they answer during the call, the engine's number formatting, the clock,
  the identifiers that
  \<^verbatim>\<open>generateId\<close> returns (one for the order, participant or item, one for a modification
  record) and the draws of \<^verbatim>\<open>generateOrderCode\<close>. \<open>exec\<close> is the state after the call,
  whether it returned or threw; \<open>run\<close> performs a list of calls in order.
\<close>

record Env =
  e_menuService :: MenuService
  e_participantService :: "ParticipantService option"
  e_defaultSettings :: OrderSettings
  e_numberToString :: "jsnum \<Rightarrow> string"
  e_now :: int
  e_newId :: string
  e_modId :: string
  e_draws :: "string list"

datatype Operation =
    CreateGroupOrder string GroupOrderCreateRequest
  | UpdateOrder string string GroupOrderUpdateRequest
  | CloseOrder string string
  | DeleteOrder string string
  | ExpireOrder string
  | CheckAndExpireOrders
  | JoinOrder JoinOrderRequest
  | LeaveOrder string string
  | AddOrderItem string string AddOrderItemRequest
  | UpdateOrderItem string string string UpdateOrderItemRequest
  | RemoveOrderItem string string string
  | CalculateOrderSummary string
  | AddOrderItemWithHistory string string AddOrderItemRequest
  | UpdateOrderItemWithHistory string string string UpdateOrderItemRequest
  | RemoveOrderItemWithHistory string string string
  | GetOrderModificationHistory string

fun exec :: "Env \<Rightarrow> Operation \<Rightarrow> OrderServiceImpl \<Rightarrow> OrderServiceImpl" where
  "exec e (CreateGroupOrder userId request) s =
     (case createGroupOrder (e_menuService e) (e_defaultSettings e) (e_now e) (e_newId e)
             (e_draws e) userId request s of
        None \<Rightarrow> s | Some r \<Rightarrow> snd r)"
| "exec e (UpdateOrder orderId userId request) s =
     snd (updateOrder (e_now e) orderId userId request s)"
| "exec e (CloseOrder orderId userId) s = snd (closeOrder (e_now e) orderId userId s)"
| "exec e (DeleteOrder orderId userId) s = snd (deleteOrder orderId userId s)"
| "exec e (ExpireOrder orderId) s = snd (expireOrder (e_now e) orderId s)"
| "exec e CheckAndExpireOrders s = snd (checkAndExpireOrders (e_now e) s)"
| "exec e (JoinOrder request) s =
     snd (joinOrder (e_participantService e) (e_now e) (e_newId e) (e_modId e) request s)"
| "exec e (LeaveOrder orderId participantId) s =
     snd (leaveOrder (e_now e) (e_modId e) orderId participantId s)"
| "exec e (AddOrderItem orderId participantId request) s =
     snd (addOrderItem (e_menuService e) (e_now e) (e_newId e) orderId participantId request s)"
| "exec e (UpdateOrderItem orderId participantId itemId request) s =
     snd (updateOrderItem (e_now e) orderId participantId itemId request s)"
| "exec e (RemoveOrderItem orderId participantId itemId) s =
     snd (removeOrderItem (e_now e) orderId participantId itemId s)"
| "exec e (CalculateOrderSummary orderId) s = snd (calculateOrderSummary (e_now e) orderId s)"
| "exec e (AddOrderItemWithHistory orderId participantId request) s =
     snd (addOrderItemWithHistory (e_numberToString e) (e_menuService e) (e_now e) (e_newId e)
            (e_modId e)
            orderId participantId request s)"
| "exec e (UpdateOrderItemWithHistory orderId participantId itemId request) s =
     snd (updateOrderItemWithHistory (e_numberToString e) (e_now e) (e_modId e)
            orderId participantId itemId request s)"
| "exec e (RemoveOrderItemWithHistory orderId participantId itemId) s =
     snd (removeOrderItemWithHistory (e_numberToString e) (e_now e) (e_modId e)
            orderId participantId itemId s)"
| "exec e (GetOrderModificationHistory orderId) s = snd (getOrderModificationHistory orderId s)"

fun run :: "(Env \<times> Operation) list \<Rightarrow> OrderServiceImpl \<Rightarrow> OrderServiceImpl" where
  "run [] s = s"
| "run (c # cs) s = run cs (exec (fst c) (snd c) s)"

section \<open>Properties stated by the claims\<close>

text \<open>
  A participant is consistent when its total is the sum of its items' prices; an order is
  consistent when, moreover, the cached summary total is the sum of the participants'
  totals; a store is consistent when every order in it is. The sums are taken in doubles,
  from the left.
\<close>

definition participantConsistent :: "OrderParticipant \<Rightarrow> bool" where
  "participantConsistent p = (op_totalAmount p = jsSum (map oi_totalPrice (op_items p)))"

definition orderConsistent :: "GroupOrder \<Rightarrow> bool" where
  "orderConsistent order =
     (os_totalAmount (go_summary order) = jsSum (map op_totalAmount (go_participants order)) \<and>
      list_all participantConsistent (go_participants order))"

definition storeConsistent :: "OrderServiceImpl \<Rightarrow> bool" where
  "storeConsistent s = (\<forall>orderId order. map_of (orders s) orderId = Some order \<longrightarrow> orderConsistent order)"

text \<open>
  \<open>storedItem\<close>: the order holds a participant with that id whose items contain the item.
\<close>

definition storedItem :: "OrderServiceImpl \<Rightarrow> string \<Rightarrow> string \<Rightarrow> OrderItem \<Rightarrow> bool" where
  "storedItem s orderId participantId item =
     (case map_of (orders s) orderId of
        None \<Rightarrow> False
      | Some order \<Rightarrow>
          list_ex (\<lambda>p. op_id p = participantId \<and> item \<in> set (op_items p)) (go_participants order))"

text \<open>
  \<open>statusOf\<close> reads the status stored under an order id. \<open>keysMatch\<close>: every order is
  stored under its own id. \<open>frozenAt st\<close>: the order is absent or has status \<open>st\<close>.
  \<open>neverRedraws\<close>: no \<^verbatim>\<open>createGroupOrder\<close> call in the list is handed the given order id by
  the random id generator (such a call would store a new order under that id).
\<close>

definition statusOf :: "OrderServiceImpl \<Rightarrow> string \<Rightarrow> OrderStatus option" where
  "statusOf s orderId = map_option go_status (map_of (orders s) orderId)"

definition keysMatch :: "OrderServiceImpl \<Rightarrow> bool" where
  "keysMatch s = (\<forall>orderId order. map_of (orders s) orderId = Some order \<longrightarrow> go_id order = orderId)"

definition frozenAt :: "OrderStatus \<Rightarrow> string \<Rightarrow> OrderServiceImpl \<Rightarrow> bool" where
  "frozenAt st orderId s = (statusOf s orderId = None \<or> statusOf s orderId = Some st)"

fun isCreate :: "Operation \<Rightarrow> bool" where
  "isCreate (CreateGroupOrder userId request) = True"
| "isCreate _ = False"

definition neverRedraws :: "string \<Rightarrow> (Env \<times> Operation) list \<Rightarrow> bool" where
  "neverRedraws orderId calls = list_all (\<lambda>c. isCreate (snd c) \<longrightarrow> e_newId (fst c) \<noteq> orderId) calls"

text \<open>\<open>participantIn\<close>: the order has a participant with the given id.\<close>

definition participantIn :: "GroupOrder \<Rightarrow> string \<Rightarrow> bool" where
  "participantIn order participantId = list_ex (\<lambda>p. op_id p = participantId) (go_participants order)"

text \<open>
  \<open>newestFirst\<close>: timestamps do not increase along the list. \<open>recordedFor\<close>: the records
  stored for an order id.
\<close>

definition newestFirst :: "OrderModification list \<Rightarrow> bool" where
  "newestFirst ms = sorted_wrt (\<lambda>a b. om_timestamp b \<le> om_timestamp a) ms"

definition recordedFor :: "OrderServiceImpl \<Rightarrow> string \<Rightarrow> OrderModification list" where
  "recordedFor s orderId = (case map_of (modifications s) orderId of None \<Rightarrow> [] | Some ms \<Rightarrow> ms)"

text \<open>
  \<open>computedPrice\<close>: the item's price is what the pricing loop of \<^verbatim>\<open>addOrderItem\<close> and
  \<^verbatim>\<open>updateOrderItem\<close> yields on the item's own base price, quantity and customizations.
\<close>

definition computedPrice :: "OrderItem \<Rightarrow> bool" where
  "computedPrice item =
     (oi_totalPrice item = itemPrice (oi_basePrice item) (oi_quantity item) (oi_customizations item))"

text \<open>
  The formula of the specification, \<open>(basePrice + \<Sigma> modifiers) \<times> quantity\<close>, over the exact
  rationals that the doubles denote (\<open>valueOf\<close>; an infinity or \<^verbatim>\<open>NaN\<close> denotes none and is
  given 0). \<open>wholeNumber\<close>: the double is an integer. \<open>pricingMagnitude\<close> bounds every
  partial sum of the pricing loop. \<open>wholePricing\<close>: base price, quantity and modifiers are
  whole numbers and the magnitude stays below \<open>2\<^sup>5\<^sup>3\<close>, where doubles hold every integer
  exactly. \<open>exactlyPriced\<close>: the item's price is exactly the formula's value.
\<close>

fun valueOf :: "jsnum \<Rightarrow> rat" where
  "valueOf (Fin r) = r"
| "valueOf x = 0"

fun wholeNumber :: "jsnum \<Rightarrow> bool" where
  "wholeNumber (Fin r) = (r = of_int \<lfloor>r\<rfloor>)"
| "wholeNumber x = False"

definition pricingMagnitude :: "jsnum \<Rightarrow> jsnum \<Rightarrow> Customization list \<Rightarrow> rat" where
  "pricingMagnitude price quantity cs =
     \<bar>valueOf price * valueOf quantity\<bar> +
     sum_list (map (\<lambda>c. \<bar>valueOf (cz_priceModifier c) * valueOf quantity\<bar>) cs)"

definition formulaPrice :: "jsnum \<Rightarrow> jsnum \<Rightarrow> Customization list \<Rightarrow> rat" where
  "formulaPrice price quantity cs =
     (valueOf price + sum_list (map (\<lambda>c. valueOf (cz_priceModifier c)) cs)) * valueOf quantity"

definition wholePricing :: "OrderItem \<Rightarrow> bool" where
  "wholePricing item =
     (wholeNumber (oi_basePrice item) \<and> wholeNumber (oi_quantity item) \<and>
      list_all (\<lambda>c. wholeNumber (cz_priceModifier c)) (oi_customizations item) \<and>
      pricingMagnitude (oi_basePrice item) (oi_quantity item) (oi_customizations item) < 2 ^ 53)"

definition exactlyPriced :: "OrderItem \<Rightarrow> bool" where
  "exactlyPriced item =
     (oi_totalPrice item =
        Fin (formulaPrice (oi_basePrice item) (oi_quantity item) (oi_customizations item)))"

text \<open>
  \<open>addedTo now item participantId order order'\<close>: \<open>order'\<close> is \<open>order\<close> after the item has
  been appended to the participant's items and its price added to the participant's total,
  with the summary recomputed from the new participants.
\<close>

definition addedTo ::
  "int \<Rightarrow> OrderItem \<Rightarrow> string \<Rightarrow> GroupOrder \<Rightarrow> GroupOrder \<Rightarrow> bool" where
  "addedTo now item participantId order order' =
     (case findIndex (\<lambda>p. op_id p = participantId) (go_participants order) of
        None \<Rightarrow> False
      | Some i \<Rightarrow>
          go_participants order' =
            (go_participants order)
              [i := (go_participants order ! i)
                 \<lparr>op_items := op_items (go_participants order ! i) @ [item],
                  op_totalAmount := jsAdd (op_totalAmount (go_participants order ! i)) (oi_totalPrice item),
                  op_lastModifiedAt := now\<rparr>] \<and>
          go_summary order' = computeSummary now order' \<and>
          os_totalAmount (go_summary order') = jsSum (map op_totalAmount (go_participants order')))"

text \<open>
  The business-rule failures of the plain operations. \<open>itemMutationBlocked\<close>: the order is
  missing or not active, or modifications are disabled, or the participant is not in the
  order. \<open>notParticipant\<close>: the order is missing or has no such participant. \<open>notOwned\<close>: the
  order is missing or was created by someone else. \<open>orderInactive\<close>: the order is missing
  or not active.
\<close>

definition itemMutationBlocked :: "OrderServiceImpl \<Rightarrow> string \<Rightarrow> string \<Rightarrow> bool" where
  "itemMutationBlocked s orderId participantId =
     (case map_of (orders s) orderId of
        None \<Rightarrow> True
      | Some order \<Rightarrow>
          go_status order \<noteq> Active \<or> \<not> st_allowModification (go_settings order) \<or>
          \<not> participantIn order participantId)"

definition notParticipant :: "OrderServiceImpl \<Rightarrow> string \<Rightarrow> string \<Rightarrow> bool" where
  "notParticipant s orderId participantId =
     (case map_of (orders s) orderId of
        None \<Rightarrow> True | Some order \<Rightarrow> \<not> participantIn order participantId)"

definition notOwned :: "OrderServiceImpl \<Rightarrow> string \<Rightarrow> string \<Rightarrow> bool" where
  "notOwned s orderId userId =
     (case map_of (orders s) orderId of
        None \<Rightarrow> True | Some order \<Rightarrow> go_createdBy order \<noteq> userId)"

definition orderInactive :: "OrderServiceImpl \<Rightarrow> string \<Rightarrow> bool" where
  "orderInactive s orderId =
     (case map_of (orders s) orderId of None \<Rightarrow> True | Some order \<Rightarrow> go_status order \<noteq> Active)"

section \<open>Example data\<close>

text \<open>
  A menu with one available item \<open>X\<close> at 50 and one that is sold out, a service without
  participant service, and the calls of a small scenario: an order is created with a
  deadline five minutes ahead and room for two, Alice and Bob join, Alice adds two of \<open>X\<close>.
\<close>

definition exMenuService :: MenuService where
  "exMenuService =
     \<lparr>getMenuById = (\<lambda>menuId. if menuId = ''m1''
          then Some \<lparr>mn_id = ''m1'',
                     mn_items =
                       [\<lparr>mi_id = ''X'', mi_name = ''Tea'', mi_price = Fin 50, mi_isAvailable = True\<rparr>,
                        \<lparr>mi_id = ''Y'', mi_name = ''Cake'', mi_price = Fin 30, mi_isAvailable = False\<rparr>]\<rparr>
          else None),
      canUserViewMenu = (\<lambda>menuId userId. True)\<rparr>"

definition exEnv :: "int \<Rightarrow> string \<Rightarrow> Env" where
  "exEnv now newId =
     \<lparr>e_menuService = exMenuService, e_participantService = None,
      e_defaultSettings = \<lparr>st_allowModification = True, st_maxParticipants = None,
                           st_autoCloseOnDeadline = True\<rparr>,
      e_numberToString = (\<lambda>n. ''?''), e_now = now, e_newId = newId, e_modId = ''h'' @ newId, e_draws = [''123456'']\<rparr>"

definition exJoin :: "string \<Rightarrow> JoinOrderRequest" where
  "exJoin nick = \<lparr>jr_orderCode = ''123456'', jr_nickname = nick, jr_userId = None,
                  jr_guestSessionId = None\<rparr>"

definition exAdd :: "string \<Rightarrow> int \<Rightarrow> AddOrderItemRequest" where
  "exAdd menuItemId quantity =
     \<lparr>air_menuItemId = menuItemId, air_quantity = Fin (of_int quantity), air_customizations = None,
      air_notes = None\<rparr>"

definition exCalls :: "(Env \<times> Operation) list" where
  "exCalls =
     [(exEnv 0 ''o1'', CreateGroupOrder ''u1''
         \<lparr>cr_menuId = ''m1'', cr_title = ''Lunch'', cr_description = None,
          cr_deadline = Some 300000,
          cr_settings = Some \<lparr>pst_allowModification = None, pst_maxParticipants = Some (Some 2),
                               pst_autoCloseOnDeadline = None\<rparr>\<rparr>),
      (exEnv 1 ''p1'', JoinOrder (exJoin ''Alice'')),
      (exEnv 2 ''p2'', JoinOrder (exJoin ''Bob'')),
      (exEnv 3 ''i1'', AddOrderItem ''o1'' ''p1'' (exAdd ''X'' 2))]"

text \<open>Calls made after the order has expired.\<close>

definition exLater :: "(Env \<times> Operation) list" where
  "exLater =
     [(exEnv 300001 ''p3'', JoinOrder (exJoin ''Carol'')),
      (exEnv 300002 ''i9'', AddOrderItem ''o1'' ''p1'' (exAdd ''X'' 1)),
      (exEnv 300003 ''x'', CloseOrder ''o1'' ''u1''),
      (exEnv 300004 ''x'', ExpireOrder ''o1''),
      (exEnv 300005 ''x'', UpdateOrder ''o1'' ''u1''
         \<lparr>ur_title = Some ''Dinner'', ur_description = None, ur_deadline = Some 900000,
          ur_settings = None, ur_menuId = None, ur_status = Some Active, ur_closedAt = None,
          ur_participants = None, ur_summary = None\<rparr>)]"

text \<open>
  Further scenarios: the order with Alice only (\<open>exOpen\<close>), the same order closed by its
  creator or expired by a sweep, and the full scenario with Alice adding \<open>X\<close> a second time.
\<close>

definition exOpen :: "(Env \<times> Operation) list" where
  "exOpen = take 2 exCalls"

definition exClosed :: "(Env \<times> Operation) list" where
  "exClosed = exOpen @ [(exEnv 10 ''x'', CloseOrder ''o1'' ''u1'')]"

definition exExpired :: "(Env \<times> Operation) list" where
  "exExpired = exOpen @ [(exEnv 300000 ''x'', CheckAndExpireOrders)]"

definition exTwice :: "(Env \<times> Operation) list" where
  "exTwice = exCalls @ [(exEnv 4 ''i2'', AddOrderItem ''o1'' ''p1'' (exAdd ''X'' 1))]"

text \<open>
  \<open>exFifth\<close> is the double nearest to 0.2; \<open>exIced\<close> asks for three of \<open>X\<close> with a
  customization that costs \<open>exFifth\<close>.
\<close>

definition exFifth :: jsnum where
  "exFifth = Fin (3602879701896397 / 18014398509481984)"

definition exIced :: AddOrderItemRequest where
  "exIced = \<lparr>air_menuItemId = ''X'', air_quantity = Fin 3,
             air_customizations = Some [\<lparr>cz_name = ''ice'', cz_priceModifier = exFifth\<rparr>],
             air_notes = None\<rparr>"

text \<open>
  \<open>exOverride\<close>: the creator updates the open order with a request body that carries a
  \<^verbatim>\<open>participants\<close> key (Alice with no items and a total of 500), then Alice adds one \<open>X\<close>.
\<close>

definition exOverride :: "(Env \<times> Operation) list" where
  "exOverride =
     exOpen @
     [(exEnv 2 ''x'', UpdateOrder ''o1'' ''u1''
         \<lparr>ur_title = None, ur_description = None, ur_deadline = None, ur_settings = None,
          ur_menuId = None, ur_status = None, ur_closedAt = None,
          ur_participants =
            Some [\<lparr>op_id = ''p1'', op_userId = None, op_guestSessionId = None,
                   op_nickname = ''Alice'', op_items = [], op_totalAmount = Fin 500,
                   op_joinedAt = 1, op_lastModifiedAt = 1\<rparr>],
          ur_summary = None\<rparr>),
      (exEnv 3 ''i1'', AddOrderItem ''o1'' ''p1'' (exAdd ''X'' 1))]"

section \<open>Proofs\<close>

lemmas ex_defs = exCalls_def exEnv_def exJoin_def exAdd_def exMenuService_def emptyService_def

lemmas op_defs = createGroupOrder_def joinOrder_def addOrderItem_def calculateOrderSummary_def
  recordModification_def validateOrderCode_def identityGate_def computeSummary_def
  summaryParticipantStep_def summaryItemStep_def itemPrice_def spreadSettings_def Let_def

subsection \<open>Doubles\<close>

lemma bitLength_upper: "n < 2 ^ bitLength n"
proof (induction n rule: bitLength.induct)
  case (1 n)
  show ?case
  proof (cases "n = 0")
    case True
    then show ?thesis by (simp add: bitLength.simps)
  next
    case False
    then have "n div 2 < 2 ^ bitLength (n div 2)" using 1 by simp
    then have "n < 2 * 2 ^ bitLength (n div 2)" by linarith
    then show ?thesis using False by (subst bitLength.simps) simp
  qed
qed

lemma bitLength_le: "n < 2 ^ m \<Longrightarrow> bitLength n \<le> m"
proof (induction n arbitrary: m rule: bitLength.induct)
  case (1 n)
  show ?case
  proof (cases "n = 0")
    case True
    then show ?thesis by (simp add: bitLength.simps)
  next
    case False
    then obtain m' where m: "m = Suc m'" using "1.prems" by (cases m) auto
    then have "n div 2 < 2 ^ m'" using "1.prems" by auto
    then have "bitLength (n div 2) \<le> m'" using 1 False by simp
    then show ?thesis using False m by (subst bitLength.simps) simp
  qed
qed

lemma bitLength_pos: "0 < n \<Longrightarrow> 0 < bitLength n"
  by (subst bitLength.simps) simp

lemma roundHalfEven_of_int [simp]: "roundHalfEven (of_int z) = z"
  by (simp add: roundHalfEven_def)

lemma round64_pos_int:
  assumes "0 < n" "n < 2 ^ 53"
  shows "round64 (of_int n) = Fin (of_int n)"
proof -
  define b where "b = bitLength (nat n)"
  have "nat n < 2 ^ 53" using assms by (simp add: nat_less_iff)
  then have b53: "b \<le> 53" unfolding b_def by (rule bitLength_le)
  have bpos: "0 < b" unfolding b_def using assms(1) by (intro bitLength_pos) simp
  have fl: "floorLog2 (of_int n) = int b - 1"
    using assms(1) by (simp add: floorLog2_def b_def)
  define j where "j = 53 - b"
  have k: "max (floorLog2 (of_int n)) (- 1022) - 52 = - int j"
    using b53 bpos by (simp add: fl j_def)
  have "(of_int n :: rat) * 2 ^ j = of_int (n * 2 ^ j)" by simp
  then have r: "rat_of_int (roundHalfEven (of_int n * 2 ^ j)) / 2 ^ j = of_int n"
    by (simp only: roundHalfEven_of_int) simp
  have small: "\<not> (2 ^ 1024 \<le> (of_int n :: rat))"
  proof -
    have "(of_int n :: rat) < 2 ^ 53" using assms(2) by (metis of_int_less_numeral_power_cancel_iff)
    also have "\<dots> \<le> 2 ^ 1024" by (rule power_increasing) simp_all
    finally show ?thesis by simp
  qed
  have ne: "(of_int n :: rat) \<noteq> 0" "\<not> (of_int n :: rat) < 0" "\<bar>of_int n :: rat\<bar> = of_int n"
    using assms(1) by simp_all
  show ?thesis
  proof (cases "j = 0")
    case True
    then show ?thesis unfolding round64_def Let_def ne k using small ne by simp
  next
    case False
    then have "\<not> (0 \<le> - int j)" by simp
    then show ?thesis unfolding round64_def Let_def ne k using small ne r by simp
  qed
qed

lemma round64_neg: "round64 (- x) = (case round64 x of Fin r \<Rightarrow> Fin (- r) | PosInf \<Rightarrow> NegInf
                                      | NegInf \<Rightarrow> PosInf | NaN \<Rightarrow> NaN)"
  by (simp add: round64_def Let_def)

lemma round64_int:
  assumes "\<bar>n\<bar> < 2 ^ 53"
  shows "round64 (of_int n) = Fin (of_int n)"
proof -
  consider "n = 0" | "0 < n" | "n < 0" by linarith
  then show ?thesis
  proof cases
    case 1
    then show ?thesis by (simp add: round64_def)
  next
    case 2
    then show ?thesis using assms by (intro round64_pos_int) simp_all
  next
    case 3
    then have "round64 (of_int (- n)) = Fin (of_int (- n))"
      using assms by (intro round64_pos_int) simp_all
    then show ?thesis using round64_neg[of "of_int (- n)"] by simp
  qed
qed

lemma round64_numeral [simp]:
  "numeral w < (2::int) ^ 53 \<Longrightarrow> round64 (numeral w) = Fin (numeral w)"
  "numeral w < (2::int) ^ 53 \<Longrightarrow> round64 (- numeral w) = Fin (- numeral w)"
  "round64 0 = Fin 0" "round64 1 = Fin 1"
  using round64_int[of "numeral w"] round64_int[of "- numeral w"] round64_int[of 0] round64_int[of 1]
  by simp_all

lemma floor_rat_numeral:
  "\<lfloor>(numeral a :: rat) / numeral b\<rfloor> = numeral a div numeral b"
  using floor_divide_of_int_eq[of "numeral a" "numeral b", where ?'a = rat] by simp

lemma ceiling_rat_numeral:
  "\<lceil>(numeral a :: rat) / numeral b\<rceil> = - (- numeral a div numeral b)"
  using floor_divide_of_int_eq[of "- numeral a" "numeral b", where ?'a = rat]
  by (simp add: ceiling_def)

lemma bitLength_numeral:
  "bitLength 0 = 0" "bitLength 1 = 1" "bitLength (Suc 0) = 1"
  "bitLength (numeral w) = Suc (bitLength (numeral w div 2))"
  by (subst bitLength.simps, simp add: bitLength.simps)+

lemmas r64_eval = round64_def floorLog2_def roundHalfEven_def bitLength_numeral Let_def
  floor_rat_numeral ceiling_rat_numeral

subsection \<open>List helpers\<close>

lemma findIndex_Some:
  "findIndex P xs = Some i \<Longrightarrow> i < length xs \<and> P (xs ! i)"
proof (induction xs arbitrary: i)
  case Nil
  then show ?case by simp
next
  case (Cons x xs)
  then show ?case by (cases "P x") (auto split: if_splits)
qed

lemma list_all_update:
  "list_all P xs \<Longrightarrow> P x \<Longrightarrow> list_all P (xs[i := x])"
  using set_update_subset_insert[of xs i x] by (auto simp: list_all_iff)

lemma list_all_splice1: "list_all P xs \<Longrightarrow> list_all P (splice1 i xs)"
  by (auto simp: list_all_iff splice1_def dest: in_set_takeD in_set_dropD)

lemma orders_recordModification [simp]:
  "orders (snd (recordModification now newId m s)) = orders s"
  by (simp add: recordModification_def Let_def)

subsection \<open>The expiration sweep\<close>

lemma statusOf_expireOrder_other:
  "k' \<noteq> k \<Longrightarrow> map_of (orders (snd (expireOrder now k' s))) k = map_of (orders s) k"
  by (auto simp: expireOrder_def Let_def update_conv' split: option.splits)

lemma statusOf_expireOrder_same:
  "map_of (orders s) k = Some order \<Longrightarrow> go_status order = Active \<Longrightarrow>
   statusOf (snd (expireOrder now k s)) k = Some Expired"
  by (auto simp: expireOrder_def Let_def update_conv' statusOf_def split: option.splits)

lemma sweepStep_other:
  "k' \<noteq> k \<Longrightarrow> map_of (orders (snd (sweepStep now acc k'))) k = map_of (orders (snd acc)) k"
  by (auto simp: sweepStep_def statusOf_expireOrder_other split: option.splits)

lemma sweepStep_keeps_ids: "set (fst acc) \<subseteq> set (fst (sweepStep now acc k'))"
  by (auto simp: sweepStep_def split: option.splits)

lemma sweepStep_keeps_expired:
  "statusOf (snd acc) k = Some Expired \<Longrightarrow> statusOf (snd (sweepStep now acc k')) k = Some Expired"
  by (auto simp: sweepStep_def statusOf_def sweepDue_def expireOrder_def Let_def update_conv'
      split: option.splits)

lemma foldl_sweepStep_keeps:
  "k \<in> set (fst acc) \<Longrightarrow> statusOf (snd acc) k = Some Expired \<Longrightarrow>
   k \<in> set (fst (foldl (sweepStep now) acc ks)) \<and>
   statusOf (snd (foldl (sweepStep now) acc ks)) k = Some Expired"
proof (induction ks arbitrary: acc)
  case Nil
  then show ?case by simp
next
  case (Cons a ks)
  have "k \<in> set (fst (sweepStep now acc a))" using Cons.prems(1) sweepStep_keeps_ids by blast
  moreover have "statusOf (snd (sweepStep now acc a)) k = Some Expired"
    using Cons.prems(2) by (rule sweepStep_keeps_expired)
  ultimately show ?case using Cons.IH by simp
qed

lemma sweepStep_due:
  assumes "map_of (orders (snd acc)) k = Some order" "sweepDue now order"
  shows "k \<in> set (fst (sweepStep now acc k)) \<and>
         statusOf (snd (sweepStep now acc k)) k = Some Expired"
  using assms statusOf_expireOrder_same[of "snd acc" k order now]
  by (simp add: sweepStep_def sweepDue_def)

lemma foldl_sweepStep_due:
  assumes "k \<in> set ks" "map_of (orders (snd acc)) k = Some order" "sweepDue now order"
  shows "k \<in> set (fst (foldl (sweepStep now) acc ks)) \<and>
         statusOf (snd (foldl (sweepStep now) acc ks)) k = Some Expired"
  using assms
proof (induction ks arbitrary: acc)
  case Nil
  then show ?case by simp
next
  case (Cons a ks)
  show ?case
  proof (cases "a = k")
    case True
    then show ?thesis
      using sweepStep_due[OF Cons.prems(2,3)] foldl_sweepStep_keeps by simp
  next
    case False
    then have "k \<in> set ks" using Cons.prems(1) by simp
    moreover have "map_of (orders (snd (sweepStep now acc a))) k = Some order"
      using False Cons.prems(2) by (simp add: sweepStep_other)
    ultimately show ?thesis using Cons.IH Cons.prems(3) by simp
  qed
qed

lemma checkAndExpireOrders_due:
  assumes "map_of (orders s) k = Some order" "sweepDue now order"
  shows "k \<in> set (fst (checkAndExpireOrders now s)) \<and>
         statusOf (snd (checkAndExpireOrders now s)) k = Some Expired"
proof -
  have "k \<in> set (map fst (orders s))"
    using map_of_SomeD[OF assms(1)] by force
  then show ?thesis
    unfolding checkAndExpireOrders_def
    using foldl_sweepStep_due[of k "map fst (orders s)" "([], s)" order now] assms by simp
qed

subsection \<open>Closed and expired are terminal\<close>

lemma map_of_calc:
  "map_of (orders (snd (calculateOrderSummary now k' s))) k =
     (if k = k' then map_option (\<lambda>order. order\<lparr>go_summary := computeSummary now order, go_updatedAt := now\<rparr>)
                       (map_of (orders s) k)
      else map_of (orders s) k)"
  by (auto simp: calculateOrderSummary_def Let_def update_conv' split: option.splits)

lemma statusOf_calc [simp]:
  "statusOf (snd (calculateOrderSummary now k' s)) k = statusOf s k"
  by (cases "map_of (orders s) k") (auto simp: statusOf_def map_of_calc)

lemma statusOf_recordModification [simp]:
  "statusOf (snd (recordModification now newId m s)) k = statusOf s k"
  by (simp add: statusOf_def)

lemma statusOf_update [simp]:
  "statusOf (s\<lparr>orders := AList.update k' order (orders s)\<rparr>) k =
     (if k = k' then Some (go_status order) else statusOf s k)"
  by (simp add: statusOf_def update_conv')

lemma statusOf_Some: "map_of (orders s) k = Some order \<Longrightarrow> statusOf s k = Some (go_status order)"
  by (simp add: statusOf_def)

lemma statusOf_None: "map_of (orders s) k = None \<Longrightarrow> statusOf s k = None"
  by (simp add: statusOf_def)

lemma keysMatch_calc: "keysMatch s \<Longrightarrow> keysMatch (snd (calculateOrderSummary now k' s))"
  by (auto simp: keysMatch_def map_of_calc split: if_splits)

lemma keysMatch_cong: "orders s' = orders s \<Longrightarrow> keysMatch s' = keysMatch s"
  by (simp add: keysMatch_def)

lemma keysMatch_update:
  "keysMatch s \<Longrightarrow> go_id order = k' \<Longrightarrow> keysMatch (s\<lparr>orders := AList.update k' order (orders s)\<rparr>)"
  by (auto simp: keysMatch_def update_conv')

lemma keysMatchD: "keysMatch s \<Longrightarrow> map_of (orders s) k = Some order \<Longrightarrow> go_id order = k"
  by (simp add: keysMatch_def)

lemma frozenAt_addOrderItem:
  "st \<noteq> Active \<Longrightarrow> frozenAt st k s \<Longrightarrow> frozenAt st k (snd (addOrderItem ms now newId k' pid req s))"
  unfolding addOrderItem_def frozenAt_def
  by (auto split: option.splits simp: Let_def dest: statusOf_Some statusOf_None)

lemma frozenAt_updateOrderItem:
  "st \<noteq> Active \<Longrightarrow> frozenAt st k s \<Longrightarrow> frozenAt st k (snd (updateOrderItem now k' pid iid req s))"
  unfolding updateOrderItem_def frozenAt_def
  by (auto split: option.splits simp: Let_def dest: statusOf_Some statusOf_None)

lemma frozenAt_removeOrderItem:
  "st \<noteq> Active \<Longrightarrow> frozenAt st k s \<Longrightarrow> frozenAt st k (snd (removeOrderItem now k' pid iid s))"
  unfolding removeOrderItem_def frozenAt_def
  by (auto split: option.splits simp: Let_def dest: statusOf_Some statusOf_None)

lemma frozenAt_leaveOrder:
  "frozenAt st k s \<Longrightarrow> frozenAt st k (snd (leaveOrder now mid k' pid s))"
  unfolding leaveOrder_def frozenAt_def
  by (auto split: option.splits simp: Let_def dest: statusOf_Some statusOf_None)

lemma frozenAt_updateOrder:
  "st \<noteq> Active \<Longrightarrow> frozenAt st k s \<Longrightarrow> frozenAt st k (snd (updateOrder now k' uid req s))"
  unfolding updateOrder_def frozenAt_def
  by (auto split: option.splits simp: Let_def dest: statusOf_Some statusOf_None)

lemma frozenAt_closeOrder:
  "st \<noteq> Active \<Longrightarrow> frozenAt st k s \<Longrightarrow> frozenAt st k (snd (closeOrder now k' uid s))"
  unfolding closeOrder_def frozenAt_def
  by (auto split: option.splits simp: Let_def dest: statusOf_Some statusOf_None)

lemma frozenAt_expireOrder:
  "st \<noteq> Active \<Longrightarrow> frozenAt st k s \<Longrightarrow> frozenAt st k (snd (expireOrder now k' s))"
  unfolding expireOrder_def frozenAt_def
  by (auto split: option.splits simp: Let_def dest: statusOf_Some statusOf_None)

lemma frozenAt_deleteOrder:
  "frozenAt st k s \<Longrightarrow> frozenAt st k (snd (deleteOrder k' uid s))"
  unfolding deleteOrder_def frozenAt_def
  by (auto split: option.splits simp: statusOf_def delete_conv')

lemma frozenAt_calc:
  "frozenAt st k s \<Longrightarrow> frozenAt st k (snd (calculateOrderSummary now k' s))"
  by (simp add: frozenAt_def)

lemma frozenAt_cong: "orders s' = orders s \<Longrightarrow> frozenAt st k s' = frozenAt st k s"
  by (simp add: frozenAt_def statusOf_def)

lemma frozenAt_sweepStep:
  "st \<noteq> Active \<Longrightarrow> frozenAt st k (snd acc) \<Longrightarrow> frozenAt st k (snd (sweepStep now acc k'))"
  by (auto simp: sweepStep_def frozenAt_expireOrder split: option.splits)

lemma frozenAt_foldl_sweepStep:
  "st \<noteq> Active \<Longrightarrow> frozenAt st k (snd acc) \<Longrightarrow> frozenAt st k (snd (foldl (sweepStep now) acc ks))"
  by (induction ks arbitrary: acc) (simp_all add: frozenAt_sweepStep)

lemma frozenAt_checkAndExpireOrders:
  "st \<noteq> Active \<Longrightarrow> frozenAt st k s \<Longrightarrow> frozenAt st k (snd (checkAndExpireOrders now s))"
  by (simp add: checkAndExpireOrders_def frozenAt_foldl_sweepStep)

lemma validateOrderCode_stored:
  "vr_order (validateOrderCode now code s) = Some order \<Longrightarrow>
     \<exists>k. map_of (orders s) k = Some order"
  by (auto simp: validateOrderCode_def split: if_splits option.splits)

lemma frozenAt_joinOrder:
  assumes "keysMatch s" "frozenAt st k s"
  shows "frozenAt st k (snd (joinOrder ps now pid mid req s))"
proof -
  have st: "statusOf s (go_id order) = Some (go_status order)"
    if h: "vr_order (validateOrderCode now (jr_orderCode req) s) = Some order" for order
  proof -
    obtain k' where k': "map_of (orders s) k' = Some order"
      using validateOrderCode_stored[OF h] by blast
    then have "go_id order = k'" using assms(1) by (simp add: keysMatch_def)
    then show ?thesis using k' by (simp add: statusOf_def)
  qed
  show ?thesis
    using assms(2) unfolding joinOrder_def frozenAt_def
    by (auto split: option.splits simp: Let_def dest: st)
qed

lemma keysMatch_step:
  "keysMatch s \<Longrightarrow> go_id order = k' \<Longrightarrow>
   keysMatch (snd (calculateOrderSummary now k' (s\<lparr>orders := AList.update k' order (orders s)\<rparr>)))"
  by (intro keysMatch_calc keysMatch_update)

lemma keysMatch_addOrderItem:
  "keysMatch s \<Longrightarrow> keysMatch (snd (addOrderItem ms now newId k' pid req s))"
  unfolding addOrderItem_def
  by (auto split: option.splits simp: Let_def keysMatch_step keysMatchD)

lemma keysMatch_updateOrderItem:
  "keysMatch s \<Longrightarrow> keysMatch (snd (updateOrderItem now k' pid iid req s))"
  unfolding updateOrderItem_def
  by (auto split: option.splits simp: Let_def keysMatch_step keysMatchD)

lemma keysMatch_removeOrderItem:
  "keysMatch s \<Longrightarrow> keysMatch (snd (removeOrderItem now k' pid iid s))"
  unfolding removeOrderItem_def
  by (auto split: option.splits simp: Let_def keysMatch_step keysMatchD)

lemma keysMatch_leaveOrder:
  "keysMatch s \<Longrightarrow> keysMatch (snd (leaveOrder now mid k' pid s))"
  unfolding leaveOrder_def
  by (auto split: option.splits
      simp: Let_def keysMatch_step keysMatchD keysMatch_cong[OF orders_recordModification])

lemma keysMatch_joinOrder:
  "keysMatch s \<Longrightarrow> keysMatch (snd (joinOrder ps now pid mid req s))"
  unfolding joinOrder_def
  by (auto split: option.splits
      simp: Let_def keysMatch_step keysMatch_cong[OF orders_recordModification])

lemma keysMatch_expireOrder:
  "keysMatch s \<Longrightarrow> keysMatch (snd (expireOrder now k' s))"
  unfolding expireOrder_def
  by (auto split: option.splits simp: Let_def keysMatch_update keysMatchD)

lemma keysMatch_foldl_sweepStep:
  "keysMatch (snd acc) \<Longrightarrow> keysMatch (snd (foldl (sweepStep now) acc ks))"
  by (induction ks arbitrary: acc)
     (auto simp: sweepStep_def keysMatch_expireOrder split: option.splits)

lemma keysMatch_exec:
  assumes "keysMatch s"
  shows "keysMatch (exec e c s)"
proof (cases c)
  case (CreateGroupOrder userId request)
  then show ?thesis using assms
    by (auto simp: createGroupOrder_def Let_def keysMatch_def update_conv'
        split: option.splits if_splits)
next
  case (UpdateOrder orderId userId request)
  then show ?thesis using assms
    by (auto simp: updateOrder_def Let_def keysMatch_update split: option.splits)
next
  case (CloseOrder orderId userId)
  then show ?thesis using assms
    by (auto simp: closeOrder_def Let_def keysMatch_update keysMatchD split: option.splits)
next
  case (DeleteOrder orderId userId)
  then show ?thesis using assms
    by (auto simp: deleteOrder_def keysMatch_def delete_conv' split: option.splits if_splits)
next
  case (ExpireOrder orderId)
  then show ?thesis using assms by (simp add: keysMatch_expireOrder)
next
  case CheckAndExpireOrders
  then show ?thesis using assms by (simp add: checkAndExpireOrders_def keysMatch_foldl_sweepStep)
next
  case (JoinOrder request)
  then show ?thesis using assms by (simp add: keysMatch_joinOrder)
next
  case (LeaveOrder orderId participantId)
  then show ?thesis using assms by (simp add: keysMatch_leaveOrder)
next
  case (AddOrderItem orderId participantId request)
  then show ?thesis using assms by (simp add: keysMatch_addOrderItem)
next
  case (UpdateOrderItem orderId participantId itemId request)
  then show ?thesis using assms by (simp add: keysMatch_updateOrderItem)
next
  case (RemoveOrderItem orderId participantId itemId)
  then show ?thesis using assms by (simp add: keysMatch_removeOrderItem)
next
  case (CalculateOrderSummary orderId)
  then show ?thesis using assms by (simp add: keysMatch_calc)
next
  case (AddOrderItemWithHistory orderId participantId request)
  have "keysMatch (snd (addOrderItem (e_menuService e) (e_now e) (e_newId e) orderId participantId request s))"
    using assms by (rule keysMatch_addOrderItem)
  then show ?thesis using assms AddOrderItemWithHistory
    by (auto simp: addOrderItemWithHistory_def Let_def
        keysMatch_cong[OF orders_recordModification] split: option.splits prod.splits)
next
  case (UpdateOrderItemWithHistory orderId participantId itemId request)
  have "keysMatch (snd (updateOrderItem (e_now e) orderId participantId itemId request s))"
    using assms by (rule keysMatch_updateOrderItem)
  then show ?thesis using assms UpdateOrderItemWithHistory
    by (auto simp: updateOrderItemWithHistory_def Let_def
        keysMatch_cong[OF orders_recordModification] split: option.splits prod.splits)
next
  case (RemoveOrderItemWithHistory orderId participantId itemId)
  have "keysMatch (snd (removeOrderItem (e_now e) orderId participantId itemId s))"
    using assms by (rule keysMatch_removeOrderItem)
  then show ?thesis using assms RemoveOrderItemWithHistory
    by (auto simp: removeOrderItemWithHistory_def Let_def
        keysMatch_cong[OF orders_recordModification] split: option.splits prod.splits bool.splits)
next
  case (GetOrderModificationHistory orderId)
  then show ?thesis using assms
    by (auto simp: getOrderModificationHistory_def keysMatch_def split: option.splits)
qed

lemma frozenAt_exec:
  assumes "st \<noteq> Active" "keysMatch s" "frozenAt st k s" "isCreate c \<longrightarrow> e_newId e \<noteq> k"
  shows "frozenAt st k (exec e c s)"
proof (cases c)
  case (CreateGroupOrder userId request)
  then show ?thesis using assms(3,4)
    by (auto simp: createGroupOrder_def Let_def frozenAt_def statusOf_def update_conv'
        split: option.splits if_splits)
next
  case (UpdateOrder orderId userId request)
  then show ?thesis using assms by (simp add: frozenAt_updateOrder)
next
  case (CloseOrder orderId userId)
  then show ?thesis using assms by (simp add: frozenAt_closeOrder)
next
  case (DeleteOrder orderId userId)
  then show ?thesis using assms by (simp add: frozenAt_deleteOrder)
next
  case (ExpireOrder orderId)
  then show ?thesis using assms by (simp add: frozenAt_expireOrder)
next
  case CheckAndExpireOrders
  then show ?thesis using assms by (simp add: frozenAt_checkAndExpireOrders)
next
  case (JoinOrder request)
  then show ?thesis using assms by (simp add: frozenAt_joinOrder)
next
  case (LeaveOrder orderId participantId)
  then show ?thesis using assms by (simp add: frozenAt_leaveOrder)
next
  case (AddOrderItem orderId participantId request)
  then show ?thesis using assms by (simp add: frozenAt_addOrderItem)
next
  case (UpdateOrderItem orderId participantId itemId request)
  then show ?thesis using assms by (simp add: frozenAt_updateOrderItem)
next
  case (RemoveOrderItem orderId participantId itemId)
  then show ?thesis using assms by (simp add: frozenAt_removeOrderItem)
next
  case (CalculateOrderSummary orderId)
  then show ?thesis using assms by (simp add: frozenAt_calc)
next
  case (AddOrderItemWithHistory orderId participantId request)
  have "frozenAt st k (snd (addOrderItem (e_menuService e) (e_now e) (e_newId e) orderId participantId request s))"
    using assms(1,3) by (rule frozenAt_addOrderItem)
  then show ?thesis using assms(3) AddOrderItemWithHistory
    by (auto simp: addOrderItemWithHistory_def Let_def
        frozenAt_cong[OF orders_recordModification] split: option.splits prod.splits)
next
  case (UpdateOrderItemWithHistory orderId participantId itemId request)
  have "frozenAt st k (snd (updateOrderItem (e_now e) orderId participantId itemId request s))"
    using assms(1,3) by (rule frozenAt_updateOrderItem)
  then show ?thesis using assms(3) UpdateOrderItemWithHistory
    by (auto simp: updateOrderItemWithHistory_def Let_def
        frozenAt_cong[OF orders_recordModification] split: option.splits prod.splits)
next
  case (RemoveOrderItemWithHistory orderId participantId itemId)
  have "frozenAt st k (snd (removeOrderItem (e_now e) orderId participantId itemId s))"
    using assms(1,3) by (rule frozenAt_removeOrderItem)
  then show ?thesis using assms(3) RemoveOrderItemWithHistory
    by (auto simp: removeOrderItemWithHistory_def Let_def
        frozenAt_cong[OF orders_recordModification] split: option.splits prod.splits bool.splits)
next
  case (GetOrderModificationHistory orderId)
  then show ?thesis using assms(3)
    by (auto simp: getOrderModificationHistory_def frozenAt_def statusOf_def split: option.splits)
qed

lemma keysMatch_run: "keysMatch s \<Longrightarrow> keysMatch (run cs s)"
  by (induction cs arbitrary: s) (simp_all add: keysMatch_exec)

lemma frozenAt_run:
  "st \<noteq> Active \<Longrightarrow> keysMatch s \<Longrightarrow> frozenAt st k s \<Longrightarrow> neverRedraws k cs \<Longrightarrow>
   frozenAt st k (run cs s)"
proof (induction cs arbitrary: s)
  case Nil
  then show ?case by simp
next
  case (Cons c cs)
  have "frozenAt st k (exec (fst c) (snd c) s)"
    using Cons.prems by (intro frozenAt_exec) (simp_all add: neverRedraws_def)
  moreover have "keysMatch (exec (fst c) (snd c) s)" using Cons.prems(2) by (rule keysMatch_exec)
  moreover have "neverRedraws k cs" using Cons.prems(4) by (simp add: neverRedraws_def)
  ultimately show ?case using Cons.IH Cons.prems(1) by simp
qed

text \<open>
  C3. One sweep of \<^verbatim>\<open>checkAndExpireOrders\<close> expires every active order whose deadline is at
  or before now and whose \<open>autoCloseOnDeadline\<close> is set, and returns its id. Starting from a
  state the service can reach, an order whose status is closed or expired keeps that status
  through any sequence of calls for as long as it exists (\<^verbatim>\<open>deleteOrder\<close> may remove it),
  provided the random id generator does not hand its id to a later \<^verbatim>\<open>createGroupOrder\<close>.
\<close>

theorem expiry_and_terminal_status:
  "(map_of (orders s) k = Some order \<and> sweepDue now order \<longrightarrow>
      k \<in> set (fst (checkAndExpireOrders now s)) \<and>
      statusOf (snd (checkAndExpireOrders now s)) k = Some Expired) \<and>
   (statusOf (run before emptyService) k' = Some st \<and> st \<noteq> Active \<and> neverRedraws k' calls \<longrightarrow>
      statusOf (run calls (run before emptyService)) k' = None \<or>
      statusOf (run calls (run before emptyService)) k' = Some st)"
proof -
  have "keysMatch (run before emptyService)"
    by (rule keysMatch_run) (simp add: keysMatch_def emptyService_def)
  then show ?thesis
    using checkAndExpireOrders_due[of s k order now]
      frozenAt_run[of st "run before emptyService" k' calls]
    by (auto simp: frozenAt_def)
qed

theorem expiry_and_terminal_status_witness:
  "''o1'' \<in> set (fst (checkAndExpireOrders 300000 (run exCalls emptyService))) \<and>
   statusOf (snd (checkAndExpireOrders 300000 (run exCalls emptyService))) ''o1'' = Some Expired \<and>
   statusOf (run (exCalls @ [(exEnv 300000 ''x'', CheckAndExpireOrders)]) emptyService) ''o1''
     = Some Expired \<and>
   (statusOf (run exLater (run (exCalls @ [(exEnv 300000 ''x'', CheckAndExpireOrders)]) emptyService))
      ''o1'' = None \<or>
    statusOf (run exLater (run (exCalls @ [(exEnv 300000 ''x'', CheckAndExpireOrders)]) emptyService))
      ''o1'' = Some Expired)"
proof -
  have "map_option (sweepDue 300000) (map_of (orders (run exCalls emptyService)) ''o1'') = Some True"
    by (simp add: ex_defs op_defs sweepDue_def)
  then obtain order where
    due: "map_of (orders (run exCalls emptyService)) ''o1'' = Some order" "sweepDue 300000 order"
    by auto
  have st: "statusOf (run (exCalls @ [(exEnv 300000 ''x'', CheckAndExpireOrders)]) emptyService) ''o1''
      = Some Expired"
    by (simp add: ex_defs op_defs statusOf_def checkAndExpireOrders_def sweepStep_def sweepDue_def
        expireOrder_def)
  have nr: "neverRedraws ''o1'' exLater"
    by (simp add: neverRedraws_def exLater_def)
  show ?thesis
    using due st nr
      expiry_and_terminal_status [where s = "run exCalls emptyService" and k = "''o1''"
        and order = order and now = 300000
        and before = "exCalls @ [(exEnv 300000 ''x'', CheckAndExpireOrders)]"
        and k' = "''o1''" and st = Expired and calls = exLater]
    by simp
qed

subsection \<open>History queries\<close>

lemma newestFirst_sortNewestFirst: "newestFirst (sortNewestFirst ms)"
proof -
  have "sorted (map (\<lambda>m. - om_timestamp m) (sortNewestFirst ms))"
    unfolding sortNewestFirst_def by (rule sorted_sort_key)
  then show ?thesis by (simp add: newestFirst_def sorted_map)
qed

lemma mset_sortNewestFirst: "mset (sortNewestFirst ms) = mset ms"
  by (simp add: sortNewestFirst_def)

lemma foldl_collect:
  "foldl (\<lambda>allModifications ms. allModifications @ filter P ms) acc xss
     = acc @ filter P (concat xss)"
  by (induction xss arbitrary: acc) simp_all

lemma recordedFor_recordModification:
  "recordedFor (snd (recordModification now newId m s)) k =
     (if k = om_orderId m then recordedFor s k @ [fst (recordModification now newId m s)]
      else recordedFor s k)"
  by (auto simp: recordedFor_def recordModification_def Let_def update_conv' split: option.splits)

text \<open>
  C10. \<^verbatim>\<open>getOrderModificationHistory\<close> returns the records stored for the order id, each as
  often as it is stored, in descending order of timestamp, and its in-place sort only
  reorders what is stored. \<^verbatim>\<open>getParticipantModificationHistory\<close> returns the records of the
  participant id from the lists of all orders, newest first. A record enters the list of its
  order through \<^verbatim>\<open>recordModification\<close>, which appends it with a fresh id and the clock as
  its timestamp.
\<close>

theorem history_newest_first:
  "newestFirst (fst (getOrderModificationHistory k s)) \<and>
   mset (fst (getOrderModificationHistory k s)) = mset (recordedFor s k) \<and>
   mset (recordedFor (snd (getOrderModificationHistory k s)) k') = mset (recordedFor s k') \<and>
   newestFirst (getParticipantModificationHistory pid s) \<and>
   mset (getParticipantModificationHistory pid s) =
     mset (filter (\<lambda>m. om_participantId m = pid) (concat (map snd (modifications s)))) \<and>
   recordedFor (snd (recordModification now newId m s)) (om_orderId m) =
     recordedFor s (om_orderId m) @ [m\<lparr>om_id := newId, om_timestamp := now\<rparr>]"
proof (intro conjI)
  show "newestFirst (fst (getOrderModificationHistory k s))"
    using newestFirst_sortNewestFirst
    by (cases "map_of (modifications s) k")
       (simp_all add: getOrderModificationHistory_def newestFirst_def)
  show "mset (fst (getOrderModificationHistory k s)) = mset (recordedFor s k)"
    by (simp add: getOrderModificationHistory_def recordedFor_def mset_sortNewestFirst
        split: option.splits)
  show "mset (recordedFor (snd (getOrderModificationHistory k s)) k') = mset (recordedFor s k')"
    by (auto simp: getOrderModificationHistory_def recordedFor_def mset_sortNewestFirst update_conv'
        split: option.splits)
  show "newestFirst (getParticipantModificationHistory pid s)"
    by (simp add: getParticipantModificationHistory_def newestFirst_sortNewestFirst)
  show "mset (getParticipantModificationHistory pid s) =
     mset (filter (\<lambda>m. om_participantId m = pid) (concat (map snd (modifications s))))"
    by (simp add: getParticipantModificationHistory_def mset_sortNewestFirst foldl_collect)
  show "recordedFor (snd (recordModification now newId m s)) (om_orderId m) =
     recordedFor s (om_orderId m) @ [m\<lparr>om_id := newId, om_timestamp := now\<rparr>]"
    by (simp add: recordedFor_recordModification) (simp add: recordModification_def Let_def)
qed

theorem history_newest_first_witness:
  "map (\<lambda>m. (om_timestamp m, om_participantNickname m))
     (fst (getOrderModificationHistory ''o1'' (run exCalls emptyService)))
     = [(2, ''Bob''), (1, ''Alice'')] \<and>
   newestFirst (fst (getOrderModificationHistory ''o1'' (run exCalls emptyService))) \<and>
   map om_timestamp (getParticipantModificationHistory ''p1'' (run exCalls emptyService)) = [1] \<and>
   newestFirst (getParticipantModificationHistory ''p1'' (run exCalls emptyService))"
  using history_newest_first [where k = "''o1''" and s = "run exCalls emptyService"
      and pid = "''p1''"]
  by (simp add: ex_defs op_defs getOrderModificationHistory_def sortNewestFirst_def
      getParticipantModificationHistory_def)

subsection \<open>Where the code departs from the claims\<close>

lemmas ex2_defs = exOpen_def exClosed_def exExpired_def exTwice_def

text \<open>
  C2 does not hold of the code. \<^verbatim>\<open>validateOrderCode\<close> answers \<open>isValid = true\<close>,
  \<open>canJoin = false\<close> for an order that is closed or past its deadline, and \<^verbatim>\<open>joinOrder\<close>
  looks at \<open>isValid\<close> only: without a participant service the join goes through. Below, Bob
  joins the closed order, and joins the open order 100 seconds after its deadline.
\<close>

theorem joinOrder_closed_order_accepted:
  "statusOf (run exClosed emptyService) ''o1'' = Some Closed \<and>
   vr_canJoin (validateOrderCode 20 ''123456'' (run exClosed emptyService)) = False \<and>
   vr_error (validateOrderCode 20 ''123456'' (run exClosed emptyService)) = Some ''Order is closed'' \<and>
   (let r = joinOrder None 20 ''p2'' ''hp2'' (exJoin ''Bob'') (run exClosed emptyService)
    in vr_isValid (fst r) \<and> vr_canJoin (fst r) \<and> vr_error (fst r) = None \<and>
       map_option (\<lambda>order. (go_status order, map op_nickname (go_participants order),
                              os_totalParticipants (go_summary order)))
         (map_of (orders (snd r)) ''o1'') = Some (Closed, [''Alice'', ''Bob''], 2)) \<and>
   (let r = joinOrder None 400000 ''p2'' ''hp2'' (exJoin ''Bob'') (run exOpen emptyService)
    in vr_canJoin (fst r) \<and>
       map_option (\<lambda>order. (go_status order, go_deadline order, map op_nickname (go_participants order)))
         (map_of (orders (snd r)) ''o1'') = Some (Active, Some 300000, [''Alice'', ''Bob'']))"
  by (simp add: ex_defs ex2_defs op_defs statusOf_def closeOrder_def rejectJoin_def statusName_def)

text \<open>
  C4 does not hold of the code for \<^verbatim>\<open>joinOrder\<close>: on the expired order \<^verbatim>\<open>addOrderItem\<close> is
  refused, but Bob's join succeeds and changes the participants and the summary.
\<close>

theorem joinOrder_expired_order_mutates:
  "statusOf (run exExpired emptyService) ''o1'' = Some Expired \<and>
   fst (addOrderItem exMenuService 300001 ''i1'' ''o1'' ''p1'' (exAdd ''X'' 1)
          (run exExpired emptyService)) = None \<and>
   map_option (\<lambda>order. (map op_nickname (go_participants order),
                          os_totalParticipants (go_summary order)))
     (map_of (orders (run exExpired emptyService)) ''o1'') = Some ([''Alice''], 1) \<and>
   (let r = joinOrder None 300001 ''p2'' ''hp2'' (exJoin ''Bob'') (run exExpired emptyService)
    in vr_isValid (fst r) \<and> vr_canJoin (fst r) \<and>
       map_option (\<lambda>order. (map op_nickname (go_participants order),
                              os_totalParticipants (go_summary order)))
         (map_of (orders (snd r)) ''o1'') = Some ([''Alice'', ''Bob''], 2))"
  by (simp add: ex_defs ex2_defs op_defs statusOf_def checkAndExpireOrders_def sweepStep_def
      sweepDue_def expireOrder_def rejectJoin_def)

text \<open>
  C6 does not hold of \<^verbatim>\<open>calculateOrderSummary\<close>: with Alice holding two order items of menu
  item \<open>X\<close>, the summary's breakdown entry lists her nickname twice, while
  \<^verbatim>\<open>calculateOrderTotals\<close>, which keeps a set of participant ids, counts her once.
\<close>

theorem summary_breakdown_counts_participant_twice:
  "map_option (\<lambda>order. map (\<lambda>p. (op_nickname p, map oi_menuItemId (op_items p))) (go_participants order))
     (map_of (orders (run exTwice emptyService)) ''o1'')
     = Some [(''Alice'', [''X'', ''X'']), (''Bob'', [])] \<and>
   map_option (\<lambda>order. map (\<lambda>b. (ib_menuItemId b, ib_participants b))
                           (os_itemBreakdown (go_summary order)))
     (map_of (orders (run exTwice emptyService)) ''o1'')
     = Some [(''X'', [''Alice'', ''Alice''])] \<and>
   map_option (\<lambda>order. map (\<lambda>b. (tb_itemId b, tb_participantCount b))
                           (ot_itemBreakdown (calculateOrderTotals order)))
     (map_of (orders (run exTwice emptyService)) ''o1'')
     = Some [(''X'', 1)]"
  by (simp add: ex_defs ex2_defs op_defs calculateOrderTotals_def totalsParticipantStep_def
      totalsItemStep_def setAdd_def)

text \<open>
  The other operations named in C4 behave as it says: on an order that is not active the
  item operations, \<^verbatim>\<open>updateOrder\<close>, \<^verbatim>\<open>closeOrder\<close> and \<^verbatim>\<open>expireOrder\<close> fail and change
  nothing, while leaving and deleting do not look at the status. The participant service's
  own \<^verbatim>\<open>canParticipantJoinOrder\<close> refuses an order that is not active.
\<close>

lemma inactive_order_rejects:
  assumes "map_of (orders s) k = Some order" "go_status order \<noteq> Active"
  shows "addOrderItem ms now newId k pid req s = (None, s)"
    and "updateOrderItem now k pid iid ureq s = (None, s)"
    and "removeOrderItem now k pid iid s = (False, s)"
    and "updateOrder now k uid oreq s = (None, s)"
    and "closeOrder now k uid s = (False, s)"
    and "expireOrder now k s = (False, s)"
  using assms
  by (simp_all add: addOrderItem_def updateOrderItem_def removeOrderItem_def updateOrder_def
      closeOrder_def expireOrder_def)

lemma findIndex_None_iff: "(findIndex P xs = None) = (\<not> list_ex P xs)"
  by (induction xs) simp_all

lemma leave_and_delete_any_status:
  assumes "map_of (orders s) k = Some order"
  shows "participantIn order pid \<Longrightarrow> fst (leaveOrder now mid k pid s)"
    and "go_createdBy order = uid \<Longrightarrow> fst (deleteOrder k uid s)"
proof -
  show "fst (leaveOrder now mid k pid s)" if "participantIn order pid"
  proof -
    have "findIndex (\<lambda>p. op_id p = pid) (go_participants order) \<noteq> None"
      using that by (simp add: findIndex_None_iff participantIn_def)
    then show ?thesis using assms by (auto simp: leaveOrder_def Let_def)
  qed
  show "fst (deleteOrder k uid s)" if "go_createdBy order = uid"
    using that assms by (simp add: deleteOrder_def)
qed

lemma canParticipantJoinOrderImpl_inactive:
  "go_status order \<noteq> Active \<Longrightarrow> \<not> canParticipantJoinOrderImpl now identity pid order"
  by (simp add: canParticipantJoinOrderImpl_def split: option.splits prod.splits)

subsection \<open>Sums in doubles\<close>

lemma jsSum_Nil [simp]: "jsSum [] = Fin 0"
  by (simp add: jsSum_def)

lemma jsSum_snoc: "jsSum (xs @ [x]) = jsAdd (jsSum xs) x"
  by (simp add: jsSum_def)

lemma sumTotalPrice_jsSum: "sumTotalPrice its = jsSum (map oi_totalPrice its)"
  by (simp add: sumTotalPrice_def jsSum_def foldl_map)

lemma summaryParticipantStep_amount:
  "fst (snd (summaryParticipantStep acc p)) = jsAdd (fst (snd acc)) (op_totalAmount p)"
  by (simp add: summaryParticipantStep_def Let_def)

lemma foldl_summaryParticipantStep_amount:
  "fst (snd (foldl summaryParticipantStep acc ps)) = foldl jsAdd (fst (snd acc)) (map op_totalAmount ps)"
  by (induction ps arbitrary: acc) (simp_all add: summaryParticipantStep_amount)

lemma computeSummary_totalAmount:
  "os_totalAmount (computeSummary now order) = jsSum (map op_totalAmount (go_participants order))"
  by (simp add: computeSummary_def Let_def foldl_summaryParticipantStep_amount jsSum_def)

subsection \<open>The totals stay consistent\<close>

text \<open>
  Each of the five mutating operations keeps a consistent store consistent: the totals
  that it writes are the left-to-right sums in doubles of what it stores.
\<close>

lemma recompute_consistent:
  assumes "storeConsistent s" and "list_all participantConsistent (go_participants uo)"
  shows "storeConsistent (snd (calculateOrderSummary now k (s\<lparr>orders := AList.update k uo (orders s)\<rparr>)))"
  using assms
  by (auto simp: storeConsistent_def calculateOrderSummary_def Let_def update_conv'
        orderConsistent_def computeSummary_totalAmount split: if_splits)

lemma storeConsistent_cong: "orders s' = orders s \<Longrightarrow> storeConsistent s' = storeConsistent s"
  by (simp add: storeConsistent_def)

lemma storeConsistentD:
  "storeConsistent s \<Longrightarrow> map_of (orders s) k = Some order \<Longrightarrow> orderConsistent order"
  by (simp add: storeConsistent_def)

lemma calculateOrderSummary_consistent:
  assumes "storeConsistent s"
  shows "storeConsistent (snd (calculateOrderSummary now k s))"
proof (cases "map_of (orders s) k")
  case None
  then show ?thesis using assms by (simp add: calculateOrderSummary_def)
next
  case (Some order)
  then have "orderConsistent order" using assms by (rule storeConsistentD[rotated])
  then show ?thesis using assms Some
    by (auto simp: storeConsistent_def calculateOrderSummary_def Let_def update_conv'
        orderConsistent_def computeSummary_totalAmount split: if_splits)
qed

lemma consistent_nth:
  assumes "storeConsistent s" "map_of (orders s) k = Some order"
    "findIndex (\<lambda>p. op_id p = pid) (go_participants order) = Some i"
  shows "participantConsistent (go_participants order ! i)"
    and "list_all participantConsistent (go_participants order)"
proof -
  have oc: "orderConsistent order" using assms(1,2) by (rule storeConsistentD)
  show "list_all participantConsistent (go_participants order)"
    using oc by (simp add: orderConsistent_def)
  have "i < length (go_participants order)" using findIndex_Some[OF assms(3)] by simp
  then show "participantConsistent (go_participants order ! i)"
    using oc by (simp add: orderConsistent_def list_all_length)
qed

lemma addOrderItem_consistent:
  assumes "storeConsistent s"
  shows "storeConsistent (snd (addOrderItem ms now newId k pid req s))"
proof -
  have upd: "list_all participantConsistent
        ((go_participants order)[i := (go_participants order ! i)
            \<lparr>op_items := op_items (go_participants order ! i) @ [it],
             op_totalAmount := jsAdd (op_totalAmount (go_participants order ! i)) tp,
             op_lastModifiedAt := now\<rparr>])"
    if "map_of (orders s) k = Some order"
      "findIndex (\<lambda>p. op_id p = pid) (go_participants order) = Some i"
      "oi_totalPrice it = tp"
    for order i it tp
    using consistent_nth[OF assms that(1,2)] that(3)
    by (intro list_all_update) (simp_all add: participantConsistent_def jsSum_snoc)
  show ?thesis
    unfolding addOrderItem_def
    using assms
    by (auto split: option.splits simp: Let_def intro!: recompute_consistent upd)
qed

lemma updateOrderItem_consistent:
  assumes "storeConsistent s"
  shows "storeConsistent (snd (updateOrderItem now k pid iid req s))"
proof -
  have upd: "list_all participantConsistent
        ((go_participants order)[i := (go_participants order ! i)
            \<lparr>op_items := its, op_totalAmount := sumTotalPrice its, op_lastModifiedAt := now\<rparr>])"
    if "map_of (orders s) k = Some order"
      "findIndex (\<lambda>p. op_id p = pid) (go_participants order) = Some i"
    for order i its
    using consistent_nth[OF assms that(1,2)]
    by (intro list_all_update) (simp_all add: participantConsistent_def sumTotalPrice_jsSum)
  show ?thesis
    unfolding updateOrderItem_def
    using assms
    by (auto split: option.splits simp: Let_def intro!: recompute_consistent upd)
qed

lemma removeOrderItem_consistent:
  assumes "storeConsistent s"
  shows "storeConsistent (snd (removeOrderItem now k pid iid s))"
proof -
  have upd: "list_all participantConsistent
        ((go_participants order)[i := (go_participants order ! i)
            \<lparr>op_items := its, op_totalAmount := sumTotalPrice its, op_lastModifiedAt := now\<rparr>])"
    if "map_of (orders s) k = Some order"
      "findIndex (\<lambda>p. op_id p = pid) (go_participants order) = Some i"
    for order i its
    using consistent_nth[OF assms that(1,2)]
    by (intro list_all_update) (simp_all add: participantConsistent_def sumTotalPrice_jsSum)
  show ?thesis
    unfolding removeOrderItem_def
    using assms
    by (auto split: option.splits simp: Let_def intro!: recompute_consistent upd)
qed

lemma validateOrderCode_order:
  "vr_order (validateOrderCode now code s) = Some order \<Longrightarrow>
     \<exists>k. map_of (orders s) k = Some order"
  by (auto simp: validateOrderCode_def split: if_splits option.splits)

lemma joinOrder_consistent:
  assumes "storeConsistent s"
  shows "storeConsistent (snd (joinOrder ps now pid mid req s))"
proof -
  have upd: "list_all participantConsistent (go_participants order)"
    if h: "vr_order (validateOrderCode now (jr_orderCode req) s) = Some order" for order
  proof -
    obtain k where "map_of (orders s) k = Some order"
      using validateOrderCode_order[OF h] by blast
    then have "orderConsistent order" using assms by (simp add: storeConsistent_def)
    then show ?thesis by (simp add: orderConsistent_def)
  qed
  show ?thesis
    unfolding joinOrder_def
    using assms
    by (auto split: option.splits
        simp: Let_def storeConsistent_cong[OF orders_recordModification] participantConsistent_def
          recompute_consistent upd)
qed

lemma leaveOrder_consistent:
  assumes "storeConsistent s"
  shows "storeConsistent (snd (leaveOrder now mid k pid s))"
proof -
  have upd: "list_all participantConsistent (splice1 i (go_participants order))"
    if "map_of (orders s) k = Some order" for order i
    using storeConsistentD[OF assms that]
    by (intro list_all_splice1) (simp add: orderConsistent_def)
  show ?thesis
    unfolding leaveOrder_def
    using assms
    by (auto split: option.splits
        simp: Let_def storeConsistent_cong[OF orders_recordModification]
        intro!: recompute_consistent upd)
qed

lemma round64_whole:
  assumes "r = of_int \<lfloor>r\<rfloor>" "\<bar>r\<bar> < 2 ^ 53"
  shows "round64 r = Fin r"
proof -
  have "\<bar>of_int \<lfloor>r\<rfloor> :: rat\<bar> < 2 ^ 53" using assms by simp
  then have "(of_int \<bar>\<lfloor>r\<rfloor>\<bar> :: rat) < of_int (2 ^ 53)" by simp
  then have "\<bar>\<lfloor>r\<rfloor>\<bar> < 2 ^ 53" by (simp only: of_int_less_iff)
  then have "round64 (of_int \<lfloor>r\<rfloor>) = Fin (of_int \<lfloor>r\<rfloor>)" by (rule round64_int)
  then show ?thesis using assms(1) by simp
qed

lemma whole_mult:
  fixes a b :: rat
  assumes "a = of_int \<lfloor>a\<rfloor>" "b = of_int \<lfloor>b\<rfloor>"
  shows "a * b = of_int \<lfloor>a * b\<rfloor>"
proof -
  have "a * b = of_int (\<lfloor>a\<rfloor> * \<lfloor>b\<rfloor>)" using assms by (metis of_int_mult)
  then show ?thesis by (metis floor_of_int)
qed

lemma whole_add:
  fixes a b :: rat
  assumes "a = of_int \<lfloor>a\<rfloor>" "b = of_int \<lfloor>b\<rfloor>"
  shows "a + b = of_int \<lfloor>a + b\<rfloor>"
proof -
  have "a + b = of_int (\<lfloor>a\<rfloor> + \<lfloor>b\<rfloor>)" using assms by (metis of_int_add)
  then show ?thesis by (metis floor_of_int)
qed

lemma wholeNumber_Fin: "wholeNumber x \<Longrightarrow> x = Fin (valueOf x) \<and> valueOf x = of_int \<lfloor>valueOf x\<rfloor>"
  by (cases x) simp_all

lemma foldl_modifiers_whole:
  assumes "A = of_int \<lfloor>A\<rfloor>" "q = of_int \<lfloor>q\<rfloor>"
    "list_all (\<lambda>c. wholeNumber (cz_priceModifier c)) cs"
    "\<bar>A\<bar> + sum_list (map (\<lambda>c. \<bar>valueOf (cz_priceModifier c) * q\<bar>) cs) < 2 ^ 53"
  shows "foldl (\<lambda>totalPrice c. jsAdd totalPrice (jsMul (cz_priceModifier c) (Fin q))) (Fin A) cs
           = Fin (A + sum_list (map (\<lambda>c. valueOf (cz_priceModifier c)) cs) * q)"
  using assms
proof (induction cs arbitrary: A)
  case Nil
  then show ?case by simp
next
  case (Cons c cs)
  define m where "m = valueOf (cz_priceModifier c)"
  have c: "cz_priceModifier c = Fin m" "m = of_int \<lfloor>m\<rfloor>"
    using Cons.prems(3) wholeNumber_Fin[of "cz_priceModifier c"] by (simp_all add: m_def)
  have rest: "0 \<le> sum_list (map (\<lambda>c. \<bar>valueOf (cz_priceModifier c) * q\<bar>) cs)"
    by (rule sum_list_nonneg) auto
  have bound: "\<bar>A\<bar> + \<bar>m * q\<bar> + sum_list (map (\<lambda>c. \<bar>valueOf (cz_priceModifier c) * q\<bar>) cs) < 2 ^ 53"
    using Cons.prems(4) by (simp add: m_def)
  have mq: "round64 (m * q) = Fin (m * q)"
    using whole_mult[OF c(2) Cons.prems(2)] bound rest by (intro round64_whole) linarith+
  have wA: "A + m * q = of_int \<lfloor>A + m * q\<rfloor>"
    by (rule whole_add[OF Cons.prems(1) whole_mult[OF c(2) Cons.prems(2)]])
  have "\<bar>A + m * q\<bar> \<le> \<bar>A\<bar> + \<bar>m * q\<bar>" by (rule abs_triangle_ineq)
  then have small: "\<bar>A + m * q\<bar> < 2 ^ 53" using bound rest by linarith
  have step: "jsAdd (Fin A) (jsMul (cz_priceModifier c) (Fin q)) = Fin (A + m * q)"
    using mq round64_whole[OF wA small] by (simp add: c(1))
  have "\<bar>A + m * q\<bar> + sum_list (map (\<lambda>c. \<bar>valueOf (cz_priceModifier c) * q\<bar>) cs) < 2 ^ 53"
    using bound abs_triangle_ineq[of A "m * q"] by linarith
  then have "foldl (\<lambda>totalPrice c. jsAdd totalPrice (jsMul (cz_priceModifier c) (Fin q)))
               (Fin (A + m * q)) cs
             = Fin (A + m * q + sum_list (map (\<lambda>c. valueOf (cz_priceModifier c)) cs) * q)"
    using Cons.IH[OF wA Cons.prems(2)] Cons.prems(3) by simp
  then show ?case by (simp add: step m_def algebra_simps)
qed

lemma itemPrice_whole:
  assumes "wholeNumber price" "wholeNumber quantity"
    "list_all (\<lambda>c. wholeNumber (cz_priceModifier c)) cs"
    "pricingMagnitude price quantity cs < 2 ^ 53"
  shows "itemPrice price quantity cs = Fin (formulaPrice price quantity cs)"
proof -
  define p where "p = valueOf price"
  define q where "q = valueOf quantity"
  have p: "price = Fin p" "p = of_int \<lfloor>p\<rfloor>"
    using wholeNumber_Fin[OF assms(1)] by (simp_all add: p_def)
  have q: "quantity = Fin q" "q = of_int \<lfloor>q\<rfloor>"
    using wholeNumber_Fin[OF assms(2)] by (simp_all add: q_def)
  have bound: "\<bar>p * q\<bar> + sum_list (map (\<lambda>c. \<bar>valueOf (cz_priceModifier c) * q\<bar>) cs) < 2 ^ 53"
    using assms(4) by (simp add: pricingMagnitude_def p_def q_def)
  have rest: "0 \<le> sum_list (map (\<lambda>c. \<bar>valueOf (cz_priceModifier c) * q\<bar>) cs)"
    by (rule sum_list_nonneg) auto
  have pq: "jsMul price quantity = Fin (p * q)"
    using round64_whole[OF whole_mult[OF p(2) q(2)]] bound rest by (simp add: p(1) q(1))
  have f: "foldl (\<lambda>totalPrice c. jsAdd totalPrice (jsMul (cz_priceModifier c) (Fin q))) (Fin (p * q)) cs
             = Fin (p * q + sum_list (map (\<lambda>c. valueOf (cz_priceModifier c)) cs) * q)"
    by (rule foldl_modifiers_whole[OF whole_mult[OF p(2) q(2)] q(2) assms(3) bound])
  have "itemPrice price quantity cs
          = foldl (\<lambda>totalPrice c. jsAdd totalPrice (jsMul (cz_priceModifier c) (Fin q))) (Fin (p * q)) cs"
    using pq by (simp add: itemPrice_def q(1))
  then show ?thesis
    unfolding f by (simp add: formulaPrice_def p_def q_def algebra_simps)
qed

lemma participants_calculateOrderSummary:
  "map_option go_participants (map_of (orders (snd (calculateOrderSummary now k s))) k')
     = map_option go_participants (map_of (orders s) k')"
  by (auto simp: calculateOrderSummary_def Let_def update_conv' split: option.splits)

lemma storedItem_calc:
  "storedItem (snd (calculateOrderSummary now k s)) k' pid item = storedItem s k' pid item"
  using participants_calculateOrderSummary[of now k s k']
  by (auto simp: storedItem_def split: option.splits)

lemma storedItem_update:
  assumes "i < length ps" "op_id p = pid" "item \<in> set (op_items p)"
  shows "storedItem (s\<lparr>orders := AList.update k (order\<lparr>go_participants := ps[i := p], go_updatedAt := t\<rparr>) (orders s)\<rparr>) k pid item"
proof -
  have "p \<in> set (ps[i := p])" using assms(1) by (simp add: set_update_memI)
  then show ?thesis using assms(2,3)
    by (auto simp: storedItem_def update_conv' list_ex_iff)
qed

lemma addOrderItem_Some:
  assumes "addOrderItem ms now newId k pid req s = (Some item, s')"
  shows "\<exists>order i menu menuItem.
     map_of (orders s) k = Some order \<and> go_status order = Active \<and>
     st_allowModification (go_settings order) \<and>
     findIndex (\<lambda>p. op_id p = pid) (go_participants order) = Some i \<and>
     getMenuById ms (go_menuId order) = Some menu \<and>
     find (\<lambda>it. mi_id it = air_menuItemId req) (mn_items menu) = Some menuItem \<and>
     mi_isAvailable menuItem \<and>
     oi_basePrice item = mi_price menuItem \<and>
     oi_quantity item = air_quantity req \<and>
     oi_customizations item = (case air_customizations req of None \<Rightarrow> [] | Some c \<Rightarrow> c) \<and>
     oi_totalPrice item = itemPrice (mi_price menuItem) (air_quantity req) (oi_customizations item) \<and>
     s' = snd (calculateOrderSummary now k
            (s\<lparr>orders := AList.update k
                (order\<lparr>go_participants := (go_participants order)
                    [i := (go_participants order ! i)
                       \<lparr>op_items := op_items (go_participants order ! i) @ [item],
                        op_totalAmount := jsAdd (op_totalAmount (go_participants order ! i)) (oi_totalPrice item),
                        op_lastModifiedAt := now\<rparr>],
                  go_updatedAt := now\<rparr>) (orders s)\<rparr>))"
  using assms unfolding addOrderItem_def
  by (auto split: option.splits if_splits simp: Let_def)

lemma updateOrderItem_Some:
  assumes "updateOrderItem now k pid iid req s = (Some item, s')"
  shows "\<exists>order i j.
     map_of (orders s) k = Some order \<and> go_status order = Active \<and>
     st_allowModification (go_settings order) \<and>
     findIndex (\<lambda>p. op_id p = pid) (go_participants order) = Some i \<and>
     findIndex (\<lambda>it. oi_id it = iid) (op_items (go_participants order ! i)) = Some j \<and>
     oi_basePrice item = oi_basePrice (op_items (go_participants order ! i) ! j) \<and>
     oi_id item = oi_id (op_items (go_participants order ! i) ! j) \<and>
     oi_quantity item = (case uir_quantity req of
                            None \<Rightarrow> oi_quantity (op_items (go_participants order ! i) ! j)
                          | Some q \<Rightarrow> q) \<and>
     oi_customizations item = (case uir_customizations req of
                            None \<Rightarrow> oi_customizations (op_items (go_participants order ! i) ! j)
                          | Some c \<Rightarrow> c) \<and>
     oi_totalPrice item = itemPrice (oi_basePrice item) (oi_quantity item) (oi_customizations item) \<and>
     s' = snd (calculateOrderSummary now k
            (s\<lparr>orders := AList.update k
                (order\<lparr>go_participants := (go_participants order)
                    [i := (go_participants order ! i)
                       \<lparr>op_items := (op_items (go_participants order ! i))[j := item],
                        op_totalAmount := sumTotalPrice ((op_items (go_participants order ! i))[j := item]),
                        op_lastModifiedAt := now\<rparr>],
                  go_updatedAt := now\<rparr>) (orders s)\<rparr>))"
  using assms unfolding updateOrderItem_def
  by (auto split: option.splits if_splits simp: Let_def)

lemma storedItem_nth:
  assumes "map_of (orders s) k = Some order"
    "findIndex (\<lambda>p. op_id p = pid) (go_participants order) = Some i"
    "item \<in> set (op_items (go_participants order ! i))"
  shows "storedItem s k pid item"
proof -
  have "i < length (go_participants order)" "op_id (go_participants order ! i) = pid"
    using findIndex_Some[OF assms(2)] by simp_all
  then show ?thesis using assms(1,3)
    by (auto simp: storedItem_def list_ex_iff intro!: bexI[of _ "go_participants order ! i"])
qed

lemma addOrderItem_item:
  assumes "addOrderItem ms now newId k pid req s = (Some item, s')"
  shows "computedPrice item \<and> oi_quantity item = air_quantity req \<and> storedItem s' k pid item \<and>
     (\<exists>order menu menuItem. map_of (orders s) k = Some order \<and>
        getMenuById ms (go_menuId order) = Some menu \<and>
        find (\<lambda>it. mi_id it = air_menuItemId req) (mn_items menu) = Some menuItem \<and>
        oi_basePrice item = mi_price menuItem)"
proof -
  obtain order i menu menuItem where
    h: "map_of (orders s) k = Some order"
      "findIndex (\<lambda>p. op_id p = pid) (go_participants order) = Some i"
      "getMenuById ms (go_menuId order) = Some menu"
      "find (\<lambda>it. mi_id it = air_menuItemId req) (mn_items menu) = Some menuItem"
      "oi_basePrice item = mi_price menuItem"
      "oi_quantity item = air_quantity req"
      "oi_totalPrice item = itemPrice (mi_price menuItem) (air_quantity req) (oi_customizations item)"
    and s': "s' = snd (calculateOrderSummary now k
            (s\<lparr>orders := AList.update k
                (order\<lparr>go_participants := (go_participants order)
                    [i := (go_participants order ! i)
                       \<lparr>op_items := op_items (go_participants order ! i) @ [item],
                        op_totalAmount := jsAdd (op_totalAmount (go_participants order ! i)) (oi_totalPrice item),
                        op_lastModifiedAt := now\<rparr>],
                  go_updatedAt := now\<rparr>) (orders s)\<rparr>))"
    using addOrderItem_Some[OF assms] by blast
  have i: "i < length (go_participants order)" "op_id (go_participants order ! i) = pid"
    using findIndex_Some[OF h(2)] by simp_all
  have "computedPrice item" using h(5,6,7) by (simp add: computedPrice_def)
  moreover have "storedItem s' k pid item"
    unfolding s' storedItem_calc using i by (intro storedItem_update) simp_all
  ultimately show ?thesis using h by blast
qed

lemma updateOrderItem_item:
  assumes "updateOrderItem now k pid iid req s = (Some item, s')"
  shows "computedPrice item \<and> storedItem s' k pid item \<and>
     (\<exists>old. storedItem s k pid old \<and> oi_id old = iid \<and> oi_id item = iid \<and>
        oi_basePrice item = oi_basePrice old)"
proof -
  obtain order i j where
    h: "map_of (orders s) k = Some order"
      "findIndex (\<lambda>p. op_id p = pid) (go_participants order) = Some i"
      "findIndex (\<lambda>it. oi_id it = iid) (op_items (go_participants order ! i)) = Some j"
      "oi_basePrice item = oi_basePrice (op_items (go_participants order ! i) ! j)"
      "oi_id item = oi_id (op_items (go_participants order ! i) ! j)"
      "oi_totalPrice item = itemPrice (oi_basePrice item) (oi_quantity item) (oi_customizations item)"
    and s': "s' = snd (calculateOrderSummary now k
            (s\<lparr>orders := AList.update k
                (order\<lparr>go_participants := (go_participants order)
                    [i := (go_participants order ! i)
                       \<lparr>op_items := (op_items (go_participants order ! i))[j := item],
                        op_totalAmount := sumTotalPrice ((op_items (go_participants order ! i))[j := item]),
                        op_lastModifiedAt := now\<rparr>],
                  go_updatedAt := now\<rparr>) (orders s)\<rparr>))"
    using updateOrderItem_Some[OF assms] by blast
  have i: "i < length (go_participants order)" "op_id (go_participants order ! i) = pid"
    using findIndex_Some[OF h(2)] by simp_all
  have j: "j < length (op_items (go_participants order ! i))"
    "oi_id (op_items (go_participants order ! i) ! j) = iid"
    using findIndex_Some[OF h(3)] by simp_all
  have "computedPrice item" using h(6) by (simp add: computedPrice_def)
  moreover have "storedItem s' k pid item"
    unfolding s' storedItem_calc using i j by (intro storedItem_update) (simp_all add: set_update_memI)
  moreover have "storedItem s k pid (op_items (go_participants order ! i) ! j)"
    by (rule storedItem_nth[OF h(1,2)]) (simp add: j(1))
  ultimately show ?thesis using h(4,5) j(2) by metis
qed

lemma computed_whole_exact: "computedPrice item \<Longrightarrow> wholePricing item \<Longrightarrow> exactlyPriced item"
  by (simp add: computedPrice_def wholePricing_def exactlyPriced_def itemPrice_whole)

text \<open>
  C9 (amended). For every order item created by \<^verbatim>\<open>addOrderItem\<close> or recomputed by
  \<^verbatim>\<open>updateOrderItem\<close>, \<open>totalPrice\<close> is computed in double arithmetic as
  \<open>basePrice \<times> quantity\<close>, to which \<open>modifier \<times> quantity\<close> is added for each customization
  in turn, every product and sum rounded to the nearest double. It equals
  \<open>(basePrice + \<Sigma> modifiers) \<times> quantity\<close> exactly whenever base price, quantity and
  modifiers are whole numbers with
  \<open>\<bar>basePrice \<times> quantity\<bar> + \<Sigma> \<bar>modifier \<times> quantity\<bar> < 2\<^sup>5\<^sup>3\<close>. The base price is the menu
  item's price captured at add time; an update keeps it. The item is stored with the
  participant.
\<close>

theorem order_item_price_computation:
  "(addOrderItem ms now newId k pid req s = (Some item, s') \<longrightarrow>
      computedPrice item \<and> (wholePricing item \<longrightarrow> exactlyPriced item) \<and>
      oi_quantity item = air_quantity req \<and> storedItem s' k pid item \<and>
      (\<exists>order menu menuItem. map_of (orders s) k = Some order \<and>
         getMenuById ms (go_menuId order) = Some menu \<and>
         find (\<lambda>it. mi_id it = air_menuItemId req) (mn_items menu) = Some menuItem \<and>
         oi_basePrice item = mi_price menuItem)) \<and>
   (updateOrderItem nowU kU pidU iid ureq t = (Some itemU, t') \<longrightarrow>
      computedPrice itemU \<and> (wholePricing itemU \<longrightarrow> exactlyPriced itemU) \<and>
      storedItem t' kU pidU itemU \<and>
      (\<exists>old. storedItem t kU pidU old \<and> oi_id old = iid \<and> oi_id itemU = iid \<and>
         oi_basePrice itemU = oi_basePrice old))"
  using addOrderItem_item updateOrderItem_item computed_whole_exact by blast

text \<open>
  C9 as stated fails. With base price 50, one customization of 0.2 and quantity 3 the code
  stores \<open>50 \<times> 3 + 0.2 \<times> 3\<close>, the double 150.6, while \<open>(50 + 0.2) \<times> 3\<close> evaluated in doubles
  is 150.60000000000002, and the exact value of the formula on the stored doubles is a
  third number, which no double represents.
\<close>

theorem order_item_price_counterexample:
  "round64 (1 / 5) = exFifth \<and>
   map_option (\<lambda>item. (oi_basePrice item, map cz_priceModifier (oi_customizations item),
                         oi_quantity item, oi_totalPrice item))
     (fst (addOrderItem exMenuService 4 ''i2'' ''o1'' ''p2'' exIced (run exCalls emptyService)))
     = Some (Fin 50, [exFifth], Fin 3, Fin (5298766436578099 / 35184372088832)) \<and>
   jsMul (jsAdd (Fin 50) (jsSum [exFifth])) (Fin 3) = Fin (1324691609144525 / 8796093022208) \<and>
   formulaPrice (Fin 50) (Fin 3) [\<lparr>cz_name = ''ice'', cz_priceModifier = exFifth\<rparr>]
     = 2712968415527986791 / 18014398509481984 \<and>
   (5298766436578099 / 35184372088832 :: rat) \<noteq> 1324691609144525 / 8796093022208 \<and>
   (5298766436578099 / 35184372088832 :: rat) \<noteq> 2712968415527986791 / 18014398509481984"
  by (simp add: ex_defs op_defs exIced_def exFifth_def r64_eval jsSum_def formulaPrice_def)

theorem order_item_price_computation_witness:
  "\<exists>item s' itemU t'.
     addOrderItem exMenuService 4 ''i2'' ''o1'' ''p2''
       \<lparr>air_menuItemId = ''X'', air_quantity = Fin 3,
        air_customizations = Some [\<lparr>cz_name = ''large'', cz_priceModifier = Fin 10\<rparr>],
        air_notes = None\<rparr> (run exCalls emptyService) = (Some item, s') \<and>
     oi_totalPrice item = Fin 180 \<and> computedPrice item \<and> wholePricing item \<and>
     exactlyPriced item \<and> storedItem s' ''o1'' ''p2'' item \<and>
     updateOrderItem 5 ''o1'' ''p1'' ''i1''
       \<lparr>uir_quantity = Some (Fin 4), uir_customizations = None, uir_notes = None\<rparr>
       (run exCalls emptyService) = (Some itemU, t') \<and>
     oi_totalPrice itemU = Fin 200 \<and> computedPrice itemU \<and> wholePricing itemU \<and>
     exactlyPriced itemU \<and> storedItem t' ''o1'' ''p1'' itemU"
proof -
  define r where "r = addOrderItem exMenuService 4 ''i2'' ''o1'' ''p2''
       \<lparr>air_menuItemId = ''X'', air_quantity = Fin 3,
        air_customizations = Some [\<lparr>cz_name = ''large'', cz_priceModifier = Fin 10\<rparr>],
        air_notes = None\<rparr> (run exCalls emptyService)"
  define u where "u = updateOrderItem 5 ''o1'' ''p1'' ''i1''
       \<lparr>uir_quantity = Some (Fin 4), uir_customizations = None, uir_notes = None\<rparr>
       (run exCalls emptyService)"
  have "map_option (\<lambda>item. (oi_totalPrice item, wholePricing item)) (fst r) = Some (Fin 180, True)"
    unfolding r_def by (simp add: ex_defs op_defs wholePricing_def pricingMagnitude_def)
  then obtain item where item: "r = (Some item, snd r)" "oi_totalPrice item = Fin 180"
    "wholePricing item"
    by (cases r) auto
  have "map_option (\<lambda>item. (oi_totalPrice item, wholePricing item)) (fst u) = Some (Fin 200, True)"
    unfolding u_def
    by (simp add: ex_defs op_defs updateOrderItem_def wholePricing_def pricingMagnitude_def)
  then obtain item2 where item2: "u = (Some item2, snd u)" "oi_totalPrice item2 = Fin 200"
    "wholePricing item2"
    by (cases u) auto
  show ?thesis
    using order_item_price_computation [where item = item and s' = "snd r" and itemU = item2
        and t' = "snd u"] item item2
    unfolding r_def u_def by blast
qed

subsection \<open>Quantities are not validated\<close>

lemma addOrderItem_accept_independent:
  "(fst (addOrderItem ms now newId k pid (req\<lparr>air_quantity := q\<rparr>) s) = None) =
   (fst (addOrderItem ms now newId k pid (req\<lparr>air_quantity := q'\<rparr>) s) = None)"
  unfolding addOrderItem_def
  by (auto split: option.splits if_splits simp: Let_def)

lemma addOrderItem_None:
  "fst (addOrderItem ms now newId k pid req s) = None \<Longrightarrow>
   snd (addOrderItem ms now newId k pid req s) = s"
  unfolding addOrderItem_def
  by (auto split: option.splits if_splits simp: Let_def)

lemma computeSummary_cong:
  "go_participants a = go_participants b \<Longrightarrow> computeSummary now a = computeSummary now b"
  by (simp add: computeSummary_def)

lemma addOrderItem_stored:
  assumes "addOrderItem ms now newId k pid req s = (Some item, s')"
  shows "\<exists>order order'. map_of (orders s) k = Some order \<and> map_of (orders s') k = Some order' \<and>
           addedTo now item pid order order'"
proof -
  obtain order i where
    h: "map_of (orders s) k = Some order"
      "findIndex (\<lambda>p. op_id p = pid) (go_participants order) = Some i"
    and s': "s' = snd (calculateOrderSummary now k
            (s\<lparr>orders := AList.update k
                (order\<lparr>go_participants := (go_participants order)
                    [i := (go_participants order ! i)
                       \<lparr>op_items := op_items (go_participants order ! i) @ [item],
                        op_totalAmount := jsAdd (op_totalAmount (go_participants order ! i)) (oi_totalPrice item),
                        op_lastModifiedAt := now\<rparr>],
                  go_updatedAt := now\<rparr>) (orders s)\<rparr>))"
    using addOrderItem_Some[OF assms] by blast
  define uo where "uo = order\<lparr>go_participants := (go_participants order)
                    [i := (go_participants order ! i)
                       \<lparr>op_items := op_items (go_participants order ! i) @ [item],
                        op_totalAmount := jsAdd (op_totalAmount (go_participants order ! i)) (oi_totalPrice item),
                        op_lastModifiedAt := now\<rparr>],
                  go_updatedAt := now\<rparr>"
  define order' where "order' = uo\<lparr>go_summary := computeSummary now uo, go_updatedAt := now\<rparr>"
  have st: "map_of (orders s') k = Some order'"
    unfolding s' uo_def[symmetric] by (simp add: map_of_calc update_conv' order'_def)
  have ps: "go_participants order' = go_participants uo" by (simp add: order'_def)
  have sm: "go_summary order' = computeSummary now uo" by (simp add: order'_def)
  have cs: "computeSummary now order' = computeSummary now uo" by (rule computeSummary_cong[OF ps])
  have p1: "go_participants order' = (go_participants order)
                    [i := (go_participants order ! i)
                       \<lparr>op_items := op_items (go_participants order ! i) @ [item],
                        op_totalAmount := jsAdd (op_totalAmount (go_participants order ! i)) (oi_totalPrice item),
                        op_lastModifiedAt := now\<rparr>]"
    by (simp add: order'_def uo_def)
  have t: "os_totalAmount (go_summary order') = jsSum (map op_totalAmount (go_participants order'))"
    by (simp only: sm computeSummary_totalAmount ps)
  have "addedTo now item pid order order'"
    unfolding addedTo_def h(2) using p1 t sm cs by simp
  then show ?thesis using h(1) st by blast
qed

text \<open>
  C8 (amended). \<^verbatim>\<open>addOrderItem\<close> performs no validation of the quantity: whether a request
  is accepted does not depend on its quantity; a rejected request returns \<^verbatim>\<open>null\<close> and
  leaves the state unchanged; an accepted request, also one whose quantity is zero or
  negative, creates an item with the requested quantity and the price that the pricing
  loop computes from it, appends the item to the participant's items, adds the price to
  the participant's total, and replaces the summary by the one recomputed from the new
  participants, whose total amount is the sum of the participants' totals.
\<close>

theorem addOrderItem_quantity_unchecked:
  "((fst (addOrderItem ms now newId k pid (req\<lparr>air_quantity := q\<rparr>) s) = None) =
    (fst (addOrderItem ms now newId k pid (req\<lparr>air_quantity := q'\<rparr>) s) = None)) \<and>
   (fst (addOrderItem ms now newId k pid req s) = None \<longrightarrow>
      snd (addOrderItem ms now newId k pid req s) = s) \<and>
   (fst (addOrderItem ms now newId k pid req s) = Some item \<longrightarrow>
      oi_quantity item = air_quantity req \<and> computedPrice item \<and>
      (\<exists>order order'. map_of (orders s) k = Some order \<and>
         map_of (orders (snd (addOrderItem ms now newId k pid req s))) k = Some order' \<and>
         addedTo now item pid order order'))"
  using addOrderItem_accept_independent[where q = q and q' = q']
    addOrderItem_None[where req = req]
    addOrderItem_item[where req = req and item = item
      and s' = "snd (addOrderItem ms now newId k pid req s)"]
    addOrderItem_stored[where req = req and item = item
      and s' = "snd (addOrderItem ms now newId k pid req s)"]
  by (simp add: prod_eq_iff)

text \<open>
  C8 as stated fails: a request with quantity -2 is accepted; the item is stored with price
  -100, Alice's total and the summary total drop from 100 to 0.
\<close>

theorem addOrderItem_quantity_counterexample:
  "air_quantity (exAdd ''X'' (- 2)) = Fin (- 2) \<and>
   map_option (\<lambda>item. (oi_quantity item, oi_totalPrice item))
     (fst (addOrderItem exMenuService 4 ''i2'' ''o1'' ''p1'' (exAdd ''X'' (- 2))
            (run exCalls emptyService))) = Some (Fin (- 2), Fin (- 100)) \<and>
   map_option (\<lambda>order. (os_totalAmount (go_summary order),
                          map (\<lambda>p. (length (op_items p), op_totalAmount p)) (go_participants order)))
     (map_of (orders (snd (addOrderItem exMenuService 4 ''i2'' ''o1'' ''p1'' (exAdd ''X'' (- 2))
            (run exCalls emptyService)))) ''o1'') = Some (Fin 0, [(2, Fin 0), (0, Fin 0)]) \<and>
   map_option (\<lambda>order. (os_totalAmount (go_summary order),
                          map (\<lambda>p. (length (op_items p), op_totalAmount p)) (go_participants order)))
     (map_of (orders (run exCalls emptyService)) ''o1'') = Some (Fin 100, [(1, Fin 100), (0, Fin 0)])"
  by (simp add: ex_defs op_defs)

theorem addOrderItem_quantity_unchecked_witness:
  "fst (addOrderItem exMenuService 4 ''i2'' ''o1'' ''p1'' (exAdd ''Y'' 0) (run exCalls emptyService)) = None \<and>
   snd (addOrderItem exMenuService 4 ''i2'' ''o1'' ''p1'' (exAdd ''Y'' 0) (run exCalls emptyService))
     = run exCalls emptyService \<and>
   (\<exists>item order order'.
      fst (addOrderItem exMenuService 4 ''i2'' ''o1'' ''p1'' (exAdd ''X'' 0)
             (run exCalls emptyService)) = Some item \<and>
      oi_quantity item = Fin 0 \<and> computedPrice item \<and>
      map_of (orders (run exCalls emptyService)) ''o1'' = Some order \<and>
      map_of (orders (snd (addOrderItem exMenuService 4 ''i2'' ''o1'' ''p1'' (exAdd ''X'' 0)
                 (run exCalls emptyService)))) ''o1'' = Some order' \<and>
      addedTo 4 item ''p1'' order order')"
proof -
  have n: "fst (addOrderItem exMenuService 4 ''i2'' ''o1'' ''p1'' (exAdd ''Y'' 0)
             (run exCalls emptyService)) = None"
    by (simp add: ex_defs op_defs)
  have "map_option oi_quantity (fst (addOrderItem exMenuService 4 ''i2'' ''o1'' ''p1'' (exAdd ''X'' 0)
             (run exCalls emptyService))) = Some (Fin 0)"
    by (simp add: ex_defs op_defs)
  then obtain item where
    i: "fst (addOrderItem exMenuService 4 ''i2'' ''o1'' ''p1'' (exAdd ''X'' 0)
             (run exCalls emptyService)) = Some item"
    by auto
  show ?thesis
    using n i
      addOrderItem_quantity_unchecked [where ms = exMenuService and now = 4 and newId = "''i2''"
        and k = "''o1''" and pid = "''p1''" and req = "exAdd ''Y'' 0"
        and s = "run exCalls emptyService" and q = "Fin 0" and q' = "Fin 1"]
      addOrderItem_quantity_unchecked [where ms = exMenuService and now = 4 and newId = "''i2''"
        and k = "''o1''" and pid = "''p1''" and req = "exAdd ''X'' 0"
        and s = "run exCalls emptyService" and q = "Fin 0" and q' = "Fin 1" and item = item]
    by (auto simp: exAdd_def)
qed

subsection \<open>Totals after an update that carries participants\<close>

text \<open>
  C1 does not hold of the code. \<^verbatim>\<open>updateOrder\<close> spreads every key of the request over the
  stored order and writes back only \<^verbatim>\<open>id\<close>, \<^verbatim>\<open>orderCode\<close>, \<^verbatim>\<open>createdBy\<close>, \<^verbatim>\<open>createdAt\<close>,
  \<^verbatim>\<open>updatedAt\<close> and \<^verbatim>\<open>settings\<close>, so a request with a \<^verbatim>\<open>participants\<close> key replaces the
  participants. \<^verbatim>\<open>addOrderItem\<close> then adds the new price to the total it finds instead of
  summing the items: after the call Alice's total and the summary total are 550 while her
  only item costs 50. Before the update the order was consistent, and
  \<^verbatim>\<open>updateOrderItem\<close>, which sums the items anew, makes the same order consistent again.
\<close>

theorem totals_inconsistent_after_override:
  "map_option (\<lambda>order. (os_totalAmount (go_summary order),
                          map (\<lambda>p. (op_nickname p, op_totalAmount p, map oi_totalPrice (op_items p)))
                            (go_participants order)))
     (map_of (orders (run exOverride emptyService)) ''o1'')
     = Some (Fin 550, [(''Alice'', Fin 550, [Fin 50])]) \<and>
   map_option orderConsistent (map_of (orders (run exOverride emptyService)) ''o1'') = Some False \<and>
   map_option orderConsistent (map_of (orders (run exOpen emptyService)) ''o1'') = Some True \<and>
   map_option orderConsistent
     (map_of (orders (snd (updateOrderItem 4 ''o1'' ''p1'' ''i1''
                             \<lparr>uir_quantity = Some (Fin 1), uir_customizations = None,
                              uir_notes = None\<rparr>
                             (run exOverride emptyService)))) ''o1'') = Some True"
  by (simp add: ex_defs exOverride_def exOpen_def op_defs updateOrder_def updateOrderItem_def
      sumTotalPrice_def orderConsistent_def participantConsistent_def jsSum_def)

subsection \<open>The permission window\<close>

lemma find_None_list_ex: "(find P xs = None) = (\<not> list_ex P xs)"
  by (auto simp: find_None_iff list_ex_iff)

lemma minutes_le_0: "(max 0 ((d - now) div (1000 * 60)) \<le> (0::int)) = (d - now < 60000)"
  by auto

lemma minutes_le_5: "(max 0 ((d - now) div (1000 * 60)) \<le> (5::int)) = (d - now < 360000)"
  by auto

lemma minutes_pos: "60000 \<le> d - now \<Longrightarrow> max 0 ((d - now) div (1000 * 60)) = (d - now) div (60000::int)"
  by auto

text \<open>
  What \<^verbatim>\<open>checkModificationPermission\<close> computes, case by case: the remaining time is
  counted in whole minutes, rounded down.
\<close>

lemma checkModificationPermission_cases:
  "(map_of (orders s) k = None \<longrightarrow>
      checkModificationPermission now k pid s = denied ''Order not found'') \<and>
   (map_of (orders s) k = Some order \<longrightarrow>
      (go_status order \<noteq> Active \<longrightarrow>
         checkModificationPermission now k pid s = denied (''Order is '' @ statusName (go_status order))) \<and>
      (go_status order = Active \<and> \<not> st_allowModification (go_settings order) \<longrightarrow>
         checkModificationPermission now k pid s = denied ''Order modifications are disabled'') \<and>
      (go_status order = Active \<and> st_allowModification (go_settings order) \<and>
       \<not> participantIn order pid \<longrightarrow>
         checkModificationPermission now k pid s = denied ''Participant not found in order'') \<and>
      (go_status order = Active \<and> st_allowModification (go_settings order) \<and>
       participantIn order pid \<longrightarrow>
         (go_deadline order = None \<longrightarrow>
            checkModificationPermission now k pid s =
              \<lparr>pc_canModify = True, pc_reason = None, pc_timeRemaining = None\<rparr>) \<and>
         (go_deadline order = Some d \<and> d - now < 60000 \<longrightarrow>
            checkModificationPermission now k pid s = denied ''Order deadline has passed'') \<and>
         (go_deadline order = Some d \<and> 60000 \<le> d - now \<longrightarrow>
            checkModificationPermission now k pid s =
              \<lparr>pc_canModify = True,
               pc_reason = (if d - now < 360000 then Some ''Limited time remaining'' else None),
               pc_timeRemaining = Some ((d - now) div 60000)\<rparr>)))"
  by (auto simp: checkModificationPermission_def participantIn_def find_None_list_ex Let_def
      minutes_le_0 minutes_le_5 minutes_pos simp del: max.absorb3 max.absorb4 max_less_iff_conj)

text \<open>
  C5 does not hold of the code. One millisecond before the deadline, and thirty seconds
  before it, \<^verbatim>\<open>checkModificationPermission\<close> already answers "Order deadline has passed",
  because it rounds the remaining time down to whole minutes and refuses at zero. At the
  same instant the deadline checks of \<^verbatim>\<open>validateOrderCode\<close> and of the sweep, which compare
  \<open>deadline \<le> now\<close>, still treat the order as open, and the plain \<^verbatim>\<open>addOrderItem\<close>
  succeeds.
\<close>

theorem permission_refused_before_deadline:
  "map_option go_deadline (map_of (orders (run exCalls emptyService)) ''o1'') = Some (Some 300000) \<and>
   \<not> (300000 \<le> (299999::int)) \<and>
   checkModificationPermission 299999 ''o1'' ''p1'' (run exCalls emptyService)
     = \<lparr>pc_canModify = False, pc_reason = Some ''Order deadline has passed'',
        pc_timeRemaining = None\<rparr> \<and>
   checkModificationPermission 270000 ''o1'' ''p1'' (run exCalls emptyService)
     = \<lparr>pc_canModify = False, pc_reason = Some ''Order deadline has passed'',
        pc_timeRemaining = None\<rparr> \<and>
   vr_canJoin (validateOrderCode 299999 ''123456'' (run exCalls emptyService)) \<and>
   fst (checkAndExpireOrders 299999 (run exCalls emptyService)) = [] \<and>
   map_option oi_totalPrice
     (fst (addOrderItem exMenuService 299999 ''i2'' ''o1'' ''p1'' (exAdd ''X'' 1)
            (run exCalls emptyService))) = Some (Fin 50)"
  by (simp add: ex_defs op_defs checkModificationPermission_def denied_def
      checkAndExpireOrders_def sweepStep_def sweepDue_def)

subsection \<open>History-tracked variants\<close>

lemma denied_has_reason:
  "\<not> pc_canModify (checkModificationPermission now k pid s) \<Longrightarrow>
   \<exists>reason. pc_reason (checkModificationPermission now k pid s) = Some reason \<and> reason \<noteq> []"
  by (auto simp: checkModificationPermission_def denied_def Let_def split: option.splits if_splits)

lemma addOrderItemWithHistory_permitted:
  "pc_canModify (checkModificationPermission now k pid s) \<Longrightarrow>
   \<not> isl (fst (addOrderItemWithHistory nts ms now newId modId k pid req s))"
  by (auto simp: addOrderItemWithHistory_def Let_def split: prod.splits option.splits)

lemma updateOrderItemWithHistory_permitted:
  "pc_canModify (checkModificationPermission now k pid s) \<Longrightarrow>
   \<not> isl (fst (updateOrderItemWithHistory nts now modId k pid iid ureq s))"
  by (auto simp: updateOrderItemWithHistory_def Let_def split: prod.splits option.splits)

lemma removeOrderItemWithHistory_permitted:
  "pc_canModify (checkModificationPermission now k pid s) \<Longrightarrow>
   \<not> isl (fst (removeOrderItemWithHistory nts now modId k pid iid s))"
  by (auto simp: removeOrderItemWithHistory_def Let_def split: prod.splits option.splits bool.splits)

lemma blocked_item_operations:
  assumes "itemMutationBlocked s k pid"
  shows "addOrderItem ms now newId k pid req s = (None, s)"
    and "updateOrderItem now k pid iid ureq s = (None, s)"
    and "removeOrderItem now k pid iid s = (False, s)"
  using assms
  by (auto simp: itemMutationBlocked_def addOrderItem_def updateOrderItem_def removeOrderItem_def
      participantIn_def findIndex_None_iff[symmetric] split: option.splits)

lemma leaveOrder_notParticipant:
  "notParticipant s k pid \<Longrightarrow> leaveOrder now mid k pid s = (False, s)"
  by (auto simp: notParticipant_def leaveOrder_def participantIn_def findIndex_None_iff[symmetric]
      split: option.splits)

lemma inactive_lifecycle:
  assumes "orderInactive s k"
  shows "updateOrder now k uid oreq s = (None, s)"
    and "closeOrder now k uid s = (False, s)"
    and "expireOrder now k s = (False, s)"
  using assms
  by (auto simp: orderInactive_def updateOrder_def closeOrder_def expireOrder_def
      split: option.splits)

lemma joinOrder_unknown_code:
  "map_of (orderCodeIndex s) (jr_orderCode jreq) = None \<Longrightarrow>
   joinOrder ps now newId mid jreq s =
     (\<lparr>vr_isValid = False, vr_canJoin = False, vr_error = Some ''Invalid order code'',
       vr_order = None\<rparr>, s)"
  by (simp add: joinOrder_def validateOrderCode_def)

lemma not_owned_lifecycle:
  assumes "notOwned s k uid"
  shows "updateOrder now k uid oreq s = (None, s)"
    and "closeOrder now k uid s = (False, s)"
    and "deleteOrder k uid s = (False, s)"
  using assms
  by (auto simp: notOwned_def updateOrder_def closeOrder_def deleteOrder_def
      split: option.splits)

lemma joinOrder_failure:
  assumes "\<not> vr_isValid (fst (joinOrder ps now newId mid jreq s))"
  shows "snd (joinOrder ps now newId mid jreq s) = s"
    and "\<exists>e. vr_error (fst (joinOrder ps now newId mid jreq s)) = Some e"
  using assms
  by (auto simp: joinOrder_def validateOrderCode_def rejectJoin_def Let_def
      split: option.splits if_splits)

lemma joinOrder_unknown_invalid:
  "map_of (orderCodeIndex s) (jr_orderCode jreq) = None \<Longrightarrow>
   \<not> vr_isValid (fst (joinOrder ps now newId mid jreq s))"
  by (simp add: joinOrder_unknown_code)

text \<open>
  C7 (amended). The plain operations report a business-rule failure through their return
  value and write nothing: \<^verbatim>\<open>addOrderItem\<close> and \<^verbatim>\<open>updateOrderItem\<close> return \<^verbatim>\<open>null\<close> and
  \<^verbatim>\<open>removeOrderItem\<close> returns \<^verbatim>\<open>false\<close> when the order is missing or not active,
  modifications are disabled or the participant is missing; \<^verbatim>\<open>leaveOrder\<close> returns \<^verbatim>\<open>false\<close>
  when the order or the participant is missing; \<^verbatim>\<open>updateOrder\<close> returns \<^verbatim>\<open>null\<close> and
  \<^verbatim>\<open>closeOrder\<close> returns \<^verbatim>\<open>false\<close> when the order is missing, not active or not the
  caller's; \<^verbatim>\<open>expireOrder\<close> returns \<^verbatim>\<open>false\<close> when the order is missing or not active;
  \<^verbatim>\<open>deleteOrder\<close> returns \<^verbatim>\<open>false\<close> when the order is missing or not the caller's;
  \<^verbatim>\<open>joinOrder\<close> returns an invalid result for an unknown order code, and every invalid
  result of \<^verbatim>\<open>joinOrder\<close> carries an error text and leaves the state as it was. The
  history-tracked variants \<^verbatim>\<open>addOrderItemWithHistory\<close>, \<^verbatim>\<open>updateOrderItemWithHistory\<close> and
  \<^verbatim>\<open>removeOrderItemWithHistory\<close> refuse a mutation that \<^verbatim>\<open>checkModificationPermission\<close>
  disallows by throwing an \<^verbatim>\<open>Error\<close> whose message is the rejection reason, and write
  nothing; when the check allows the mutation they do not throw.
\<close>

theorem business_failures_reporting:
  "(itemMutationBlocked s k pid \<longrightarrow>
      addOrderItem ms now newId k pid req s = (None, s) \<and>
      updateOrderItem now k pid iid ureq s = (None, s) \<and>
      removeOrderItem now k pid iid s = (False, s)) \<and>
   (notParticipant s k pid \<longrightarrow> leaveOrder now modId k pid s = (False, s)) \<and>
   (orderInactive s k \<or> notOwned s k uid \<longrightarrow>
      updateOrder now k uid oreq s = (None, s) \<and> closeOrder now k uid s = (False, s)) \<and>
   (orderInactive s k \<longrightarrow> expireOrder now k s = (False, s)) \<and>
   (notOwned s k uid \<longrightarrow> deleteOrder k uid s = (False, s)) \<and>
   (map_of (orderCodeIndex s) (jr_orderCode jreq) = None \<longrightarrow>
      \<not> vr_isValid (fst (joinOrder ps now newId modId jreq s))) \<and>
   (\<not> vr_isValid (fst (joinOrder ps now newId modId jreq s)) \<longrightarrow>
      snd (joinOrder ps now newId modId jreq s) = s \<and>
      (\<exists>e. vr_error (fst (joinOrder ps now newId modId jreq s)) = Some e)) \<and>
   (\<not> pc_canModify (checkModificationPermission now k pid s) \<longrightarrow>
      (\<exists>reason. pc_reason (checkModificationPermission now k pid s) = Some reason \<and>
         addOrderItemWithHistory nts ms now newId modId k pid req s = (Inl (Error reason), s) \<and>
         updateOrderItemWithHistory nts now modId k pid iid ureq s = (Inl (Error reason), s) \<and>
         removeOrderItemWithHistory nts now modId k pid iid s = (Inl (Error reason), s))) \<and>
   (pc_canModify (checkModificationPermission now k pid s) \<longrightarrow>
      \<not> isl (fst (addOrderItemWithHistory nts ms now newId modId k pid req s)) \<and>
      \<not> isl (fst (updateOrderItemWithHistory nts now modId k pid iid ureq s)) \<and>
      \<not> isl (fst (removeOrderItemWithHistory nts now modId k pid iid s)))"
proof -
  have d: "\<exists>reason. pc_reason (checkModificationPermission now k pid s) = Some reason \<and>
         addOrderItemWithHistory nts ms now newId modId k pid req s = (Inl (Error reason), s) \<and>
         updateOrderItemWithHistory nts now modId k pid iid ureq s = (Inl (Error reason), s) \<and>
         removeOrderItemWithHistory nts now modId k pid iid s = (Inl (Error reason), s)"
    if h: "\<not> pc_canModify (checkModificationPermission now k pid s)"
  proof -
    obtain reason where
      r: "pc_reason (checkModificationPermission now k pid s) = Some reason" "reason \<noteq> []"
      using h denied_has_reason by blast
    show ?thesis
      using h r
      by (simp add: addOrderItemWithHistory_def updateOrderItemWithHistory_def
          removeOrderItemWithHistory_def Let_def)
  qed
  show ?thesis
    using d blocked_item_operations [of s k pid] leaveOrder_notParticipant [of s k pid]
      inactive_lifecycle [of s k] not_owned_lifecycle [of s k uid]
      joinOrder_failure [of ps now newId modId jreq s]
      joinOrder_unknown_invalid [of s jreq ps now newId modId]
      addOrderItemWithHistory_permitted [of now k pid s nts ms newId modId req]
      updateOrderItemWithHistory_permitted [of now k pid s nts modId iid ureq]
      removeOrderItemWithHistory_permitted [of now k pid s nts modId iid]
    by blast
qed

text \<open>
  C7 as stated fails: for a missing order, and for an order whose deadline has passed, the
  history-tracked variants throw.
\<close>

theorem history_variants_throw_counterexample:
  "addOrderItemWithHistory (\<lambda>n. ''?'') exMenuService 0 ''i1'' ''h1'' ''zz'' ''p1'' (exAdd ''X'' 1) emptyService
     = (Inl (Error ''Order not found''), emptyService) \<and>
   fst (removeOrderItemWithHistory (\<lambda>n. ''?'') 300000 ''h2'' ''o1'' ''p1'' ''i1'' (run exCalls emptyService))
     = Inl (Error ''Order deadline has passed'')"
  by (simp add: ex_defs op_defs addOrderItemWithHistory_def removeOrderItemWithHistory_def
      checkModificationPermission_def denied_def)

theorem business_failures_reporting_witness:
  "addOrderItem exMenuService 5 ''i2'' ''o1'' ''p9'' (exAdd ''X'' 1) (run exCalls emptyService)
     = (None, run exCalls emptyService) \<and>
   removeOrderItem 5 ''o1'' ''p9'' ''i1'' (run exCalls emptyService)
     = (False, run exCalls emptyService) \<and>
   leaveOrder 5 ''h3'' ''o1'' ''p9'' (run exCalls emptyService) = (False, run exCalls emptyService) \<and>
   closeOrder 20 ''o1'' ''u1'' (run exClosed emptyService) = (False, run exClosed emptyService) \<and>
   expireOrder 20 ''o1'' (run exClosed emptyService) = (False, run exClosed emptyService) \<and>
   deleteOrder ''o1'' ''u2'' (run exCalls emptyService) = (False, run exCalls emptyService) \<and>
   snd (joinOrder None 5 ''p3'' ''h3'' ((exJoin ''Carol'')\<lparr>jr_orderCode := ''000000''\<rparr>)
          (run exCalls emptyService)) = run exCalls emptyService \<and>
   updateOrderItemWithHistory (\<lambda>n. ''?'') 300000 ''h2'' ''o1'' ''p1'' ''i1''
      \<lparr>uir_quantity = Some (Fin 5), uir_customizations = None, uir_notes = None\<rparr>
      (run exCalls emptyService)
     = (Inl (Error ''Order deadline has passed''), run exCalls emptyService) \<and>
   \<not> isl (fst (updateOrderItemWithHistory (\<lambda>n. ''?'') 0 ''h2'' ''o1'' ''p1'' ''i1''
      \<lparr>uir_quantity = Some (Fin 5), uir_customizations = None, uir_notes = None\<rparr>
      (run exCalls emptyService)))"
proof -
  have p: "checkModificationPermission 300000 ''o1'' ''p1'' (run exCalls emptyService)
      = denied ''Order deadline has passed''"
    "pc_canModify (checkModificationPermission 0 ''o1'' ''p1'' (run exCalls emptyService))"
    by (simp_all add: ex_defs op_defs checkModificationPermission_def denied_def)
  have b: "itemMutationBlocked (run exCalls emptyService) ''o1'' ''p9''"
    "notParticipant (run exCalls emptyService) ''o1'' ''p9''"
    "notOwned (run exCalls emptyService) ''o1'' ''u2''"
    "orderInactive (run exClosed emptyService) ''o1''"
    "map_of (orderCodeIndex (run exCalls emptyService))
       (jr_orderCode ((exJoin ''Carol'')\<lparr>jr_orderCode := ''000000''\<rparr>)) = None"
    by (simp_all add: ex_defs op_defs exClosed_def exOpen_def closeOrder_def itemMutationBlocked_def
        notParticipant_def notOwned_def orderInactive_def participantIn_def)
  show ?thesis
    using p b
      business_failures_reporting [where now = 5 and k = "''o1''" and pid = "''p9''"
        and s = "run exCalls emptyService" and modId = "''h3''" and iid = "''i1''"
        and uid = "''u2''" and ms = exMenuService and newId = "''i2''" and req = "exAdd ''X'' 1"]
      business_failures_reporting [where now = 5 and s = "run exCalls emptyService"
        and ps = None and newId = "''p3''" and modId = "''h3''"
        and jreq = "(exJoin ''Carol'')\<lparr>jr_orderCode := ''000000''\<rparr>"]
      business_failures_reporting [where now = 20 and k = "''o1''" and uid = "''u1''"
        and s = "run exClosed emptyService"]
      business_failures_reporting [where now = 300000 and k = "''o1''" and pid = "''p1''"
        and s = "run exCalls emptyService" and modId = "''h2''" and iid = "''i1''"
        and nts = "\<lambda>n. ''?''"
        and ureq = "\<lparr>uir_quantity = Some (Fin 5), uir_customizations = None, uir_notes = None\<rparr>"]
      business_failures_reporting [where now = 0 and k = "''o1''" and pid = "''p1''"
        and s = "run exCalls emptyService" and modId = "''h2''" and iid = "''i1''"
        and nts = "\<lambda>n. ''?''"
        and ureq = "\<lparr>uir_quantity = Some (Fin 5), uir_customizations = None, uir_notes = None\<rparr>"]
    by (auto simp: denied_def)
qed

end
